theory Spec2Isabelle
  imports Main "HOL-Library.Word"
begin

unbundle bit_operations_syntax

section \<open>Library functions used by the validator\<close>

text \<open>
  The L2 validator (\<^verbatim>\<open>plugins/crd/validator/l2/l2_validator.go\<close>) uses three functions
  of Go's \<^verbatim>\<open>strings\<close> and \<^verbatim>\<open>strconv\<close> packages. They are modelled after the documented
  behaviour of the Go standard library on a 64-bit platform.
\<close>

text \<open>
  \<^verbatim>\<open>strings.Split(s, sep)\<close> for a separator of one byte (the validator only splits at
  \<^verbatim>\<open>"/"\<close> and \<^verbatim>\<open>"."\<close>): \<open>n\<close> occurrences of the separator give \<open>n + 1\<close> parts, the
  empty string gives one empty part.
\<close>

fun strings_Split :: "string \<Rightarrow> char \<Rightarrow> string list" where
  "strings_Split [] sep = [[]]"
| "strings_Split (c # cs) sep =
     (if c = sep then [] # strings_Split cs sep
      else (case strings_Split cs sep of
              [] \<Rightarrow> [[c]]
            | p # ps \<Rightarrow> (c # p) # ps))"

text \<open>\<^verbatim>\<open>strings.Contains(s, substr)\<close>: \<open>substr\<close> occurs in \<open>s\<close> at some position.\<close>

fun strings_Contains :: "string \<Rightarrow> string \<Rightarrow> bool" where
  "strings_Contains [] substr = (substr = [])"
| "strings_Contains (c # cs) substr =
     (take (length substr) (c # cs) = substr \<or> strings_Contains cs substr)"

text \<open>
  \<^verbatim>\<open>strconv.Atoi(s)\<close> is \<^verbatim>\<open>ParseInt(s, 10, 0)\<close> converted to \<^verbatim>\<open>int\<close> (64 bits). The
  result is the value together with the error, if any. A syntax error returns the value
  0; a value out of range returns the nearest representable integer with a range error.
\<close>

datatype NumError = ErrSyntax | ErrRange

definition isDigit :: "char \<Rightarrow> bool" where
  "isDigit d = (of_char (CHR ''0'') \<le> (of_char d :: nat) \<and> (of_char d :: nat) \<le> of_char (CHR ''9''))"

definition digitVal :: "char \<Rightarrow> nat" where
  "digitVal d = of_char d - of_char (CHR ''0'')"

definition maxUint64 :: nat where
  "maxUint64 = 2 ^ 64 - 1"

text \<open>The digit loop of \<^verbatim>\<open>ParseUint(s, 10, 64)\<close>, with the accumulator \<open>n\<close>.\<close>

fun ParseUint_loop :: "nat \<Rightarrow> string \<Rightarrow> nat \<times> NumError option" where
  "ParseUint_loop n [] = (n, None)"
| "ParseUint_loop n (d # ds) =
     (if \<not> isDigit d then (0, Some ErrSyntax)
      else if n * 10 + digitVal d > maxUint64 then (maxUint64, Some ErrRange)
      else ParseUint_loop (n * 10 + digitVal d) ds)"

definition ParseUint :: "string \<Rightarrow> nat \<times> NumError option" where
  "ParseUint s = (if s = [] then (0, Some ErrSyntax) else ParseUint_loop 0 s)"

definition ParseInt :: "string \<Rightarrow> int \<times> NumError option" where
  "ParseInt s =
     (if s = [] then (0, Some ErrSyntax)
      else
        let neg = (hd s = CHR ''-'');
            s1 = (if hd s = CHR ''+'' \<or> hd s = CHR ''-'' then tl s else s)
        in (case ParseUint s1 of
              (un, Some ErrSyntax) \<Rightarrow> (0, Some ErrSyntax)
            | (un, _) \<Rightarrow>
                if \<not> neg \<and> un \<ge> 2 ^ 63 then (2 ^ 63 - 1, Some ErrRange)
                else if neg \<and> un > 2 ^ 63 then (- (2 ^ 63), Some ErrRange)
                else (if neg then - int un else int un, None)))"

definition strconv_Atoi :: "string \<Rightarrow> int \<times> NumError option" where
  "strconv_Atoi s = ParseInt s"

section \<open>Helpers of the validator\<close>

text \<open>Go's \<^verbatim>\<open>int\<close> is 64 bits wide and signed: arithmetic wraps around.\<close>

definition wrap_int64 :: "int \<Rightarrow> int" where
  "wrap_int64 x = (x + 2 ^ 63) mod 2 ^ 64 - 2 ^ 63"

text \<open>
  \<^verbatim>\<open>maskLength2Mask\<close>: the loop \<^verbatim>\<open>for i := 0; i < 32-ml; i++ { mask = mask << 1; mask++ }\<close>
  on a \<^verbatim>\<open>uint32\<close>.
\<close>

function maskLoop :: "int \<Rightarrow> int \<Rightarrow> 32 word \<Rightarrow> 32 word" where
  "maskLoop i bound m = (if i < bound then maskLoop (i + 1) bound (push_bit 1 m + 1) else m)"
  by pat_completeness auto
termination
  by (relation "measure (\<lambda>(i, bound, m). nat (bound - i))") auto

declare maskLoop.simps [simp del]

definition maskLength2Mask :: "int \<Rightarrow> 32 word" where
  "maskLength2Mask ml = maskLoop 0 (wrap_int64 (32 - ml)) 0"

text \<open>
  \<^verbatim>\<open>ip2uint32\<close>: the address is split at the dots, every part is converted with
  \<^verbatim>\<open>strconv.Atoi\<close> (the error is dropped) and shifted into the result.
\<close>

definition ip2uint32 :: "string \<Rightarrow> 32 word" where
  "ip2uint32 ipAddress =
     fold (\<lambda>p ipu. push_bit 8 ipu + word_of_int (fst (strconv_Atoi p)))
          (strings_Split ipAddress (CHR ''.'')) 0"

definition printS :: "nat \<Rightarrow> string" where
  "printS errCnt = (if errCnt > 0 then ''s'' else '''')"

section \<open>Data model\<close>

text \<open>
  Modelled from the spec: the types of package \<^verbatim>\<open>telemetrymodel\<close> and the interfaces of
  package \<^verbatim>\<open>api\<close> are not part of the sources at hand. The records below have the
  fields the validator reads and writes, with the structure of section 3 of the
  specification. A nested field such as \<^verbatim>\<open>intf.If.Vxlan.DstAddress\<close> is the field
  \<open>If_Vxlan_DstAddress\<close>. A Go map that the validator ranges over is an association
  list in the order of the iteration; \<^verbatim>\<open>map_of\<close> is the lookup. The bridge domains of
  a node are the ordered list of the specification: the index that \<^verbatim>\<open>range\<close> gives is
  the position in the list.
\<close>

datatype InterfaceType = SOFTWARE_LOOPBACK | VXLAN_TUNNEL | TAP_INTERFACE | OTHER_INTERFACE

record NodeInterface =
  If_Name :: string
  If_IfType :: InterfaceType
  If_PhysAddress :: string
  If_IPAddresses :: "string list"
  If_Vxlan_SrcAddress :: string
  If_Vxlan_DstAddress :: string
  If_Vxlan_Vni :: nat
  IfMeta_SwIfIndex :: nat
  IfMeta_VppInternalName :: string

record BdInterface =
  BdIfc_Name :: string
  BdIfc_BVI :: bool

record NodeBridgeDomain =
  Bd_Name :: string
  Bd_Interfaces :: "BdInterface list"
  BdMeta_BdID2Name :: "(nat \<times> string) list"

record NodeIPArpEntry =
  Ae_PhysAddress :: string
  Ae_IPAddress :: string
  Ae_Static :: bool
  AeMeta_IfIndex :: nat

record NodeL2FibEntry =
  Fe_PhysAddress :: string
  Fe_BridgedVirtualInterface :: bool
  Fe_StaticConfig :: bool
  Fe_OutgoingIfName :: string
  FeMeta_BridgeDomainID :: nat
  FeMeta_OutgoingIfIndex :: nat

text \<open>
  A pod is shared between the Kubernetes cache and the pod map of its node: both hold a
  pointer to it. A pointer is an address of the pod store \<open>Pods\<close> of the state.
\<close>

type_synonym PodPtr = nat

record Pod =
  Pod_Name :: string
  HostIPAddress :: string
  IPAddress :: string
  VppIfIPAddr :: string
  VppIfInternalName :: string
  VppIfName :: string
  VppSwIfIdx :: nat

record Node =
  Node_Name :: string
  NodeInterfaces :: "(int \<times> NodeInterface) list"
  NodeBridgeDomains :: "NodeBridgeDomain list"
  NodeIPArp :: "NodeIPArpEntry list"
  NodeL2Fibs :: "(string \<times> NodeL2FibEntry) list"
  PodMap :: "(string \<times> PodPtr) list"

record K8sNodeAddress =
  Adr_Type :: nat
  Adr_Address :: string

record K8sNode =
  K8sNode_Name :: string
  Addresses :: "K8sNodeAddress list"
  Pod_CIDR :: string

text \<open>
  The receiver \<^verbatim>\<open>v\<close> of the validator's methods: the two caches with their secondary
  indices, the constant \<^verbatim>\<open>api.VppVNI\<close> and the function
  \<^verbatim>\<open>datastore.GetNodeLoopIFInfo\<close>, all of them given from outside. A lookup that
  returns an error is \<open>None\<close>.
\<close>

record Validator =
  RetrieveAllNodes :: "Node list"
  RetrieveNodeByLoopMacAddr :: "string \<Rightarrow> Node option"
  RetrieveNodeByLoopIPAddr :: "string \<Rightarrow> Node option"
  RetrieveNodeByGigEIPAddr :: "string \<Rightarrow> Node option"
  RetrieveNodeByHostIPAddr :: "string \<Rightarrow> Node option"
  RetrieveAllK8sNodes :: "K8sNode list"
  RetrieveK8sNode :: "string \<Rightarrow> K8sNode option"
  RetrieveAllPods :: "PodPtr list"
  VppVNI :: nat
  GetNodeLoopIFInfo :: "Node \<Rightarrow> NodeInterface option"

text \<open>
  A message is the format string of the \<^verbatim>\<open>fmt.Sprintf\<close> call together with its
  arguments (the quotation marks of the format strings are left out).
\<close>

datatype arg = S string | N nat | T InterfaceType

type_synonym msg = "string \<times> arg list"

definition Sprintf :: "string \<Rightarrow> arg list \<Rightarrow> msg" where
  "Sprintf format args = (format, args)"

text \<open>
  Modelled from the spec: the report sink of package \<^verbatim>\<open>api\<close> accumulates lines keyed by
  a node name or by the global bucket; the logging variant also writes the line to the
  error log. The state holds the report, the error log, the lines printed with
  \<^verbatim>\<open>fmt.Println\<close> and the pod store.
\<close>

record State =
  Report :: "(string \<times> msg) list"
  ErrLog :: "msg list"
  Stdout :: "msg list"
  Pods :: "PodPtr \<Rightarrow> Pod"

definition GlobalMsg :: string where
  "GlobalMsg = ''global''"

definition AppendToNodeReport :: "string \<Rightarrow> msg \<Rightarrow> State \<Rightarrow> State" where
  "AppendToNodeReport nodeName m s = s\<lparr>Report := Report s @ [(nodeName, m)]\<rparr>"

definition LogErrAndAppendToNodeReport :: "string \<Rightarrow> msg \<Rightarrow> State \<Rightarrow> State" where
  "LogErrAndAppendToNodeReport nodeName m s =
     s\<lparr>Report := Report s @ [(nodeName, m)], ErrLog := ErrLog s @ [m]\<rparr>"

definition Println :: "msg \<Rightarrow> State \<Rightarrow> State" where
  "Println m s = s\<lparr>Stdout := Stdout s @ [m]\<rparr>"

text \<open>
  A \<^verbatim>\<open>map[string]bool\<close> that only ever stores \<^verbatim>\<open>true\<close> is a set of keys. It is a list
  without repetition, ranged over in the order of insertion (Go leaves the order open).
\<close>

type_synonym keyset = "string list"

definition set_key :: "string \<Rightarrow> keyset \<Rightarrow> keyset" where
  "set_key k m = (if k \<in> set m then m else m @ [k])"

definition delete_key :: "string \<Rightarrow> keyset \<Rightarrow> keyset" where
  "delete_key k m = removeAll k m"

text \<open>A panic ends the run; a loop that may panic stops at the first one.\<close>

datatype panic = IndexOutOfRange | NilPointerDereference

fun foldE :: "('a \<Rightarrow> 's \<Rightarrow> panic + 's) \<Rightarrow> 'a list \<Rightarrow> 's \<Rightarrow> panic + 's" where
  "foldE f [] s = Inr s"
| "foldE f (x # xs) s = (case f x s of Inl e \<Rightarrow> Inl e | Inr s' \<Rightarrow> foldE f xs s')"

section \<open>ValidateTapToPod\<close>

text \<open>The four assignments to the pod at a matching address of a tap interface.\<close>

definition bindPod :: "NodeInterface \<Rightarrow> string \<Rightarrow> Pod \<Rightarrow> Pod" where
  "bindPod intf ip pod =
     pod\<lparr>VppIfIPAddr := ip,
         VppIfInternalName := IfMeta_VppInternalName intf,
         VppIfName := If_Name intf,
         VppSwIfIdx := IfMeta_SwIfIndex intf\<rparr>"

text \<open>
  The body of the loop over \<^verbatim>\<open>intf.If.IPAddresses\<close>. \<^verbatim>\<open>ipAddr[0]\<close> exists:
  \<^verbatim>\<open>strings.Split\<close> returns at least one part (lemma \<open>strings_Split_not_Nil\<close>).
\<close>

definition tapIP_step ::
  "32 word \<Rightarrow> PodPtr \<Rightarrow> NodeInterface \<Rightarrow> string \<Rightarrow> (PodPtr \<Rightarrow> Pod) \<times> keyset \<Rightarrow> (PodPtr \<Rightarrow> Pod) \<times> keyset"
where
  "tapIP_step bitmask pod intf ip = (\<lambda>(h, podMap).
     let ipAddr = strings_Split ip (CHR ''/'');
         podIP = ip2uint32 (IPAddress (h pod));
         tapIP = ip2uint32 (hd ipAddr)
     in if (podIP AND bitmask) = (tapIP AND bitmask)
        then (let h' = h(pod := bindPod intf ip (h pod))
              in (h', delete_key (Pod_Name (h' pod)) podMap))
        else (h, podMap))"

text \<open>The body of the loop over \<^verbatim>\<open>vppNode.NodeInterfaces\<close>.\<close>

definition intf_step ::
  "32 word \<Rightarrow> PodPtr \<Rightarrow> int \<times> NodeInterface \<Rightarrow> (PodPtr \<Rightarrow> Pod) \<times> keyset \<Rightarrow> (PodPtr \<Rightarrow> Pod) \<times> keyset"
where
  "intf_step bitmask pod = (\<lambda>(idx, intf) st.
     if strings_Contains (IfMeta_VppInternalName intf) ''tap''
     then fold (tapIP_step bitmask pod intf) (If_IPAddresses intf) st
     else st)"

text \<open>
  The body of the loop over the pods. \<^verbatim>\<open>str[1]\<close> panics when the pod CIDR has no
  \<^verbatim>\<open>/\<close>. After a failed \<^verbatim>\<open>strconv.Atoi\<close> the error is reported and the scan goes on with
  the value that \<^verbatim>\<open>Atoi\<close> returned.
\<close>

definition TapToPod_pod :: "Validator \<Rightarrow> PodPtr \<Rightarrow> State \<times> keyset \<Rightarrow> panic + State \<times> keyset" where
  "TapToPod_pod v pod = (\<lambda>(s, podMap).
     if IPAddress (Pods s pod) = HostIPAddress (Pods s pod)
     then Inr (s, delete_key (Pod_Name (Pods s pod)) podMap)
     else
       (case RetrieveNodeByHostIPAddr v (HostIPAddress (Pods s pod)) of
          None \<Rightarrow>
            Inr (LogErrAndAppendToNodeReport GlobalMsg
                   (Sprintf ''validator internal error: inconsistent Host IP Address index, IP %s''
                      [S (HostIPAddress (Pods s pod))]) s, podMap)
        | Some vppNode \<Rightarrow>
            (case RetrieveK8sNode v (Node_Name vppNode) of
               None \<Rightarrow>
                 Inr (LogErrAndAppendToNodeReport (Node_Name vppNode)
                        (Sprintf ''validator internal error: inconsistent K8s node index, host name %s''
                           [S (Node_Name vppNode)]) s, podMap)
             | Some k8sNode \<Rightarrow>
                 (case strings_Split (Pod_CIDR k8sNode) (CHR ''/'') of
                    str0 # str1 # rest \<Rightarrow>
                      (let i = fst (strconv_Atoi str1);
                           err = snd (strconv_Atoi str1);
                           s1 = (if err \<noteq> None
                                 then AppendToNodeReport (K8sNode_Name k8sNode)
                                        (Sprintf ''invalid Pod_CIDR %s'' [S (Pod_CIDR k8sNode)]) s
                                 else s);
                           bitmask = maskLength2Mask i;
                           st = fold (intf_step bitmask pod) (NodeInterfaces vppNode) (Pods s1, podMap)
                       in Inr (s1\<lparr>Pods := fst st\<rparr>, snd st))
                  | _ \<Rightarrow> Inl IndexOutOfRange))))"

definition ValidateTapToPod :: "Validator \<Rightarrow> State \<Rightarrow> panic + State" where
  "ValidateTapToPod v s =
     (let podList = RetrieveAllPods v;
          podMap = fold (\<lambda>pod m. set_key (Pod_Name (Pods s pod)) m) podList []
      in (case foldE (TapToPod_pod v) podList (s, podMap) of
            Inl e \<Rightarrow> Inl e
          | Inr (s', podMap') \<Rightarrow>
              Inr (fold (\<lambda>pod. Println (Sprintf ''Did not find valid tap for pod %+v'' [S pod]))
                     podMap' s')))"

section \<open>ValidateArpTables\<close>

text \<open>
  The body of the loop over \<^verbatim>\<open>node.NodeIPArp\<close>. The local variables are the state, the
  error counter and \<^verbatim>\<open>loopNodeMap\<close>. After a report of differing nodes there is no
  \<^verbatim>\<open>continue\<close>: the \<^verbatim>\<open>delete\<close> is reached in both cases.
\<close>

definition Arp_entry ::
  "Validator \<Rightarrow> Node \<Rightarrow> NodeIPArpEntry \<Rightarrow> State \<times> nat \<times> keyset \<Rightarrow> State \<times> nat \<times> keyset"
where
  "Arp_entry v node e = (\<lambda>(s, errCnt, loopNodeMap).
     if \<not> Ae_Static e then (s, errCnt, loopNodeMap)
     else
       (case map_of (NodeInterfaces node) (int (AeMeta_IfIndex e)) of
          None \<Rightarrow>
            (AppendToNodeReport (Node_Name node)
               (Sprintf ''invalid ARP entry <%s-%s>: bad ifIndex %d''
                  [S (Ae_PhysAddress e), S (Ae_IPAddress e), N (AeMeta_IfIndex e)]) s,
             errCnt + 1, loopNodeMap)
        | Some arpIf \<Rightarrow>
            if If_IfType arpIf \<noteq> SOFTWARE_LOOPBACK \<or> If_Name arpIf \<noteq> ''vxlanBVI''
            then (s, errCnt, loopNodeMap)
            else
              (let macNode = RetrieveNodeByLoopMacAddr v (Ae_PhysAddress e);
                   s1 = (if macNode = None
                         then AppendToNodeReport (Node_Name node)
                                (Sprintf ''invalid ARP entry <%s-%s>: bad MAC Addess''
                                   [S (Ae_PhysAddress e), S (Ae_IPAddress e)]) s
                         else s);
                   errCnt1 = (if macNode = None then errCnt + 1 else errCnt);
                   ipNode = RetrieveNodeByLoopIPAddr v (Ae_IPAddress e @ ''/24'');
                   s2 = (if ipNode = None
                         then AppendToNodeReport (Node_Name node)
                                (Sprintf ''invalid ARP entry <%s-%s>: bad IP Addess''
                                   [S (Ae_PhysAddress e), S (Ae_IPAddress e)]) s1
                         else s1);
                   errCnt2 = (if ipNode = None then errCnt1 + 1 else errCnt1)
               in (case (macNode, ipNode) of
                     (Some mn, Some ipn) \<Rightarrow>
                       (if Node_Name mn \<noteq> Node_Name ipn
                        then AppendToNodeReport (Node_Name node)
                               (Sprintf ''invalid ARP entry <%s-%s>: MAC -> node %s, IP -> node %s''
                                  [S (Ae_PhysAddress e), S (Ae_IPAddress e),
                                   S (Node_Name mn), S (Node_Name ipn)]) s2
                        else s2,
                        if Node_Name mn \<noteq> Node_Name ipn then errCnt2 + 1 else errCnt2,
                        delete_key (Node_Name ipn) loopNodeMap)
                   | _ \<Rightarrow> (s2, errCnt2, loopNodeMap)))))"

text \<open>The loop over \<^verbatim>\<open>loopNodeMap\<close> after the scan of a node's entries.\<close>

definition Arp_missing :: "Node \<Rightarrow> keyset \<Rightarrow> State \<times> nat \<Rightarrow> State \<times> nat" where
  "Arp_missing node loopNodeMap =
     fold (\<lambda>nodeName (s, errCnt).
             (AppendToNodeReport (Node_Name node)
                (Sprintf ''missing ARP entry for node %s'' [S nodeName]) s, errCnt + 1))
          loopNodeMap"

definition Arp_loopNodeMap :: "Node list \<Rightarrow> Node \<Rightarrow> keyset" where
  "Arp_loopNodeMap nodeList node =
     fold (\<lambda>n m. if Node_Name n \<noteq> Node_Name node then set_key (Node_Name n) m else m) nodeList []"

definition Arp_scan :: "Validator \<Rightarrow> Node \<Rightarrow> keyset \<Rightarrow> State \<times> nat \<Rightarrow> State \<times> nat \<times> keyset" where
  "Arp_scan v node loopNodeMap = (\<lambda>(s, errCnt).
     fold (Arp_entry v node) (NodeIPArp node) (s, errCnt, loopNodeMap))"

definition Arp_node :: "Validator \<Rightarrow> Node list \<Rightarrow> Node \<Rightarrow> State \<times> nat \<Rightarrow> State \<times> nat" where
  "Arp_node v nodeList node st =
     (let r = Arp_scan v node (Arp_loopNodeMap nodeList node) st
      in Arp_missing node (snd (snd r)) (fst r, fst (snd r)))"

definition ValidateArpTables :: "Validator \<Rightarrow> State \<Rightarrow> State" where
  "ValidateArpTables v s =
     (let nodeList = RetrieveAllNodes v;
          r = fold (Arp_node v nodeList) nodeList (s, 0)
      in if snd r = 0
         then AppendToNodeReport GlobalMsg (Sprintf ''ARP Table Validation: OK'' []) (fst r)
         else AppendToNodeReport GlobalMsg
                (Sprintf ''ARP Table Validation: %d error%s found'' [N (snd r), S (printS (snd r))])
                (fst r))"

section \<open>ValidateL2Connectivity\<close>

text \<open>
  The search for the bridge domain named \<^verbatim>\<open>vxlanBD\<close>. The range variable \<^verbatim>\<open>bdomain\<close> is
  one variable for the whole loop (the repository is built with Go 1.10, where a range
  variable is not renewed in every iteration), and \<^verbatim>\<open>vxLanBD = &bdomain\<close> stores its
  address. The model keeps the content of that variable (\<open>cell\<close>) and whether the pointer
  is set (\<open>isSet\<close>); after the loop \<^verbatim>\<open>*vxLanBD\<close> reads the variable as the last iteration
  left it.
\<close>

datatype bd_search_result = Duplicate | NotFound | Found NodeBridgeDomain

fun bd_search :: "NodeBridgeDomain list \<Rightarrow> bool \<Rightarrow> NodeBridgeDomain option \<Rightarrow> bd_search_result" where
  "bd_search [] isSet cell =
     (case cell of
        None \<Rightarrow> NotFound
      | Some bdomain \<Rightarrow> if isSet then Found bdomain else NotFound)"
| "bd_search (b # bs) isSet cell =
     (if Bd_Name b = ''vxlanBD''
      then (if isSet then Duplicate else bd_search bs True (Some b))
      else bd_search bs isSet (Some b))"

text \<open>The local variables of the scan of the members of the bridge domain.\<close>

record L2Vars =
  l2_s :: State
  l2_errCnt :: nat
  l2_i :: nat
  l2_hasBviIfc :: bool
  l2_nodeVxlanMap :: keyset

definition l2_error :: "string \<Rightarrow> msg \<Rightarrow> L2Vars \<Rightarrow> L2Vars" where
  "l2_error nodeName m x =
     x\<lparr>l2_errCnt := l2_errCnt x + 1, l2_s := AppendToNodeReport nodeName m (l2_s x)\<rparr>"

definition bdName2Id_of :: "(nat \<times> string) list \<Rightarrow> string \<Rightarrow> nat option" where
  "bdName2Id_of BdID2Name = fold (\<lambda>(id, name) m. m(name \<mapsto> id)) BdID2Name Map.empty"

text \<open>
  The body of the loop over \<^verbatim>\<open>vxLanBD.Bd.Interfaces\<close>. A name missing in \<^verbatim>\<open>bdName2Id\<close>
  gives index 0. \<^verbatim>\<open>node.NodeInterfaces[int(ifIndex)]\<close> is read again in the source where
  \<open>nodeIfc\<close> stands below. In the last branch \<^verbatim>\<open>n1\<close> is nil and \<^verbatim>\<open>n1.Name\<close> panics.
\<close>

definition L2_bdIfc ::
  "Validator \<Rightarrow> Node \<Rightarrow> (string \<Rightarrow> nat option) \<Rightarrow> BdInterface \<Rightarrow> L2Vars \<Rightarrow> panic + L2Vars"
where
  "L2_bdIfc v node bdName2Id bdIfc x =
     (let ifIndex = (case bdName2Id (BdIfc_Name bdIfc) of None \<Rightarrow> 0 | Some n \<Rightarrow> n)
      in case map_of (NodeInterfaces node) (int ifIndex) of
           None \<Rightarrow>
             Inr (l2_error (Node_Name node)
                    (Sprintf ''ifIndex %d invalid for BD interface %s''
                       [N ifIndex, S (BdIfc_Name bdIfc)]) x)
         | Some nodeIfc \<Rightarrow>
             if BdIfc_BVI bdIfc then
               (let x1 = (if l2_hasBviIfc x
                          then l2_error (Node_Name node)
                                 (Sprintf ''duplicate BVI, type %+v, BVI %s (ifIndex %d, ifName %s)''
                                    [T (If_IfType nodeIfc), S (BdIfc_Name bdIfc), N ifIndex,
                                     S (If_Name nodeIfc)]) x
                          else x)
                in if If_IfType nodeIfc \<noteq> SOFTWARE_LOOPBACK
                   then Inr (l2_error (Node_Name node)
                          (Sprintf ''invalid BVI type %+v, BVI %s (ifIndex %d, ifName %s)''
                             [T (If_IfType nodeIfc), S (BdIfc_Name bdIfc), N ifIndex,
                              S (If_Name nodeIfc)]) x1)
                   else
                     (let x2 = x1\<lparr>l2_hasBviIfc := True, l2_i := l2_i x1 + 1\<rparr>
                      in case RetrieveNodeByLoopMacAddr v (If_PhysAddress nodeIfc) of
                           None \<Rightarrow>
                             Inr (l2_error (Node_Name node)
                                    (Sprintf (''validator internal error: bad MAC Addr index, '' @
                                              ''MAC Addr %s, BVI %s (ifIndex %d, ifName %s)'')
                                       [S (If_PhysAddress nodeIfc), S (BdIfc_Name bdIfc), N ifIndex,
                                        S (If_Name nodeIfc)]) x2)
                         | Some n \<Rightarrow>
                             Inr (x2\<lparr>l2_nodeVxlanMap :=
                                       delete_key (Node_Name n) (l2_nodeVxlanMap x2)\<rparr>)))
             else
               if If_IfType nodeIfc \<noteq> VXLAN_TUNNEL
               then Inr (l2_error (Node_Name node)
                      (Sprintf ''invalid BD interface type %+v, BVI %s (ifIndex %d, ifName %s)''
                         [T (If_IfType nodeIfc), S (BdIfc_Name bdIfc), N ifIndex,
                          S (If_Name nodeIfc)]) x)
               else
                 (let x1 = (if If_Vxlan_Vni nodeIfc \<noteq> VppVNI v
                            then l2_error (Node_Name node)
                                   (Sprintf ''bad VNI for %s (%s): got %d, expected %d''
                                      [S (If_Name nodeIfc), S (IfMeta_VppInternalName nodeIfc),
                                       N (If_Vxlan_Vni nodeIfc), N (VppVNI v)]) x
                            else x)
                  in case RetrieveNodeByGigEIPAddr v (If_Vxlan_SrcAddress nodeIfc) of
                       None \<Rightarrow>
                         Inr (l2_error (Node_Name node)
                                (Sprintf ''error finding node with src IP %s''
                                   [S (If_Vxlan_SrcAddress nodeIfc)]) x1)
                     | Some srcIPNode \<Rightarrow>
                         if Node_Name srcIPNode \<noteq> Node_Name node
                         then Inr (l2_error (Node_Name node)
                                (Sprintf (''vxlan_tunnel %s has source ip %s which points '' @
                                          ''to a different node than %s.'')
                                   [S (If_Name nodeIfc), S (If_Vxlan_SrcAddress nodeIfc),
                                    S (Node_Name node)]) x1)
                         else
                           (case RetrieveNodeByGigEIPAddr v (If_Vxlan_DstAddress nodeIfc) of
                              None \<Rightarrow>
                                Inr (l2_error (Node_Name node)
                                       (Sprintf ''node with dst ip %s in vxlan_tunnel %s not found''
                                          [S (If_Vxlan_DstAddress nodeIfc), S (If_Name nodeIfc)]) x1)
                            | Some dstipNode \<Rightarrow>
                                (let matchingTunnelFound =
                                       list_ex (\<lambda>(k, dstIntf).
                                                  If_IfType dstIntf = If_IfType nodeIfc \<and>
                                                  If_Vxlan_DstAddress dstIntf = If_Vxlan_SrcAddress nodeIfc)
                                               (NodeInterfaces dstipNode);
                                     x2 = (if \<not> matchingTunnelFound
                                           then l2_error (Node_Name node)
                                                  (Sprintf ''no matching vxlan_tunnel found on remote node %s for vxlan %s''
                                                     [S (Node_Name dstipNode), S (If_Name nodeIfc)]) x1
                                           else x1);
                                     x3 = x2\<lparr>l2_i := l2_i x2 + 1\<rparr>;
                                     dstAddr = If_Vxlan_DstAddress nodeIfc
                                 in case RetrieveNodeByGigEIPAddr v dstAddr of
                                      Some n1 \<Rightarrow>
                                        Inr (x3\<lparr>l2_nodeVxlanMap :=
                                                  delete_key (Node_Name n1) (l2_nodeVxlanMap x3)\<rparr>)
                                    | None \<Rightarrow> Inl NilPointerDereference))))"

text \<open>
  The checks after the scan, with \<^verbatim>\<open>nodeMap\<close>, the nodes not validated so far. After the
  report of a wrong number of interfaces there is no \<^verbatim>\<open>continue\<close>.
\<close>

definition L2_node_finish :: "Node list \<Rightarrow> Node \<Rightarrow> L2Vars \<Rightarrow> keyset \<Rightarrow> State \<times> nat \<times> keyset" where
  "L2_node_finish nodeList node x nodeMap =
     (let x1 = (if l2_i x \<noteq> length nodeList
                then l2_error (Node_Name node)
                       (Sprintf (''the number of valid BD interfaces does not match the number of nodes '' @
                                 ''in cluster: got %d, expected %d'')
                          [N (l2_i x), N (length nodeList)]) x
                else x)
      in if \<not> l2_hasBviIfc x1
         then (let x2 = l2_error (Node_Name node)
                          (Sprintf ''BVI in the Contiv cluster Vxlan BD is invalid or missing'' []) x1
               in (l2_s x2, l2_errCnt x2, nodeMap))
         else if length (l2_nodeVxlanMap x1) > 0
         then (let x2 = fold (\<lambda>n. l2_error (Node_Name node)
                                     (Sprintf ''BD interface missing or invalid for node %s'' [S n]))
                             (l2_nodeVxlanMap x1) x1
               in (l2_s x2, l2_errCnt x2, nodeMap))
         else (l2_s x1, l2_errCnt x1, delete_key (Node_Name node) nodeMap))"

definition L2_nodeVxlanMap :: "Node list \<Rightarrow> keyset" where
  "L2_nodeVxlanMap nodeList = fold (\<lambda>n m. set_key (Node_Name n) m) nodeList []"

definition L2_scan :: "Validator \<Rightarrow> Node list \<Rightarrow> Node \<Rightarrow> NodeBridgeDomain \<Rightarrow> State \<Rightarrow> nat \<Rightarrow> panic + L2Vars" where
  "L2_scan v nodeList node vxLanBD s errCnt =
     foldE (L2_bdIfc v node (bdName2Id_of (BdMeta_BdID2Name vxLanBD))) (Bd_Interfaces vxLanBD)
       \<lparr>l2_s = s, l2_errCnt = errCnt, l2_i = 0, l2_hasBviIfc = False,
        l2_nodeVxlanMap = L2_nodeVxlanMap nodeList\<rparr>"

text \<open>The body of the loop \<^verbatim>\<open>validateNodeBD\<close> over the nodes.\<close>

definition L2_node ::
  "Validator \<Rightarrow> Node list \<Rightarrow> Node \<Rightarrow> State \<times> nat \<times> keyset \<Rightarrow> panic + State \<times> nat \<times> keyset"
where
  "L2_node v nodeList node = (\<lambda>(s, errCnt, nodeMap).
     case bd_search (NodeBridgeDomains node) False None of
       Duplicate \<Rightarrow>
         Inr (AppendToNodeReport (Node_Name node)
                (Sprintf ''multiple vxlanBD bridge domains - skipping L2 validation'' []) s,
              errCnt + 1, nodeMap)
     | NotFound \<Rightarrow>
         Inr (AppendToNodeReport (Node_Name node)
                (Sprintf ''no vxlan BD - skipping L2 validation'' []) s,
              errCnt + 1, nodeMap)
     | Found vxLanBD \<Rightarrow>
         (case L2_scan v nodeList node vxLanBD s errCnt of
            Inl e \<Rightarrow> Inl e
          | Inr x \<Rightarrow> Inr (L2_node_finish nodeList node x nodeMap)))"

text \<open>The end of the function: the nodes left in \<^verbatim>\<open>nodeMap\<close> and the summary.\<close>

definition L2_finish :: "State \<times> nat \<times> keyset \<Rightarrow> State" where
  "L2_finish = (\<lambda>(s, errCnt, nodeMap).
     let s1 = fold (\<lambda>nodeName. AppendToNodeReport nodeName
                      (Sprintf ''failed to validate the Contiv cluster Vxlan BD'' []))
                   nodeMap s
     in if errCnt = 0
        then AppendToNodeReport GlobalMsg (Sprintf ''L2 connectivity validation: OK'' []) s1
        else AppendToNodeReport GlobalMsg
               (Sprintf ''L2 connectivity validation: %d errors found'' [N errCnt]) s1)"

definition L2_nodes :: "Validator \<Rightarrow> State \<Rightarrow> panic + State \<times> nat \<times> keyset" where
  "L2_nodes v s =
     (let nodeList = RetrieveAllNodes v
      in foldE (L2_node v nodeList) nodeList
           (s, 0, fold (\<lambda>node m. set_key (Node_Name node) m) nodeList []))"

definition ValidateL2Connectivity :: "Validator \<Rightarrow> State \<Rightarrow> panic + State" where
  "ValidateL2Connectivity v s =
     (case L2_nodes v s of Inl e \<Rightarrow> Inl e | Inr r \<Rightarrow> Inr (L2_finish r))"

section \<open>ValidateL2FibEntries\<close>

text \<open>
  \<^verbatim>\<open>getVxlanBD\<close> returns the index of the first bridge domain named \<^verbatim>\<open>vxlanBD\<close> in the
  order of the iteration, or the error.
\<close>

fun getVxlanBD_loop :: "nat \<Rightarrow> NodeBridgeDomain list \<Rightarrow> nat option" where
  "getVxlanBD_loop bdomainIdx [] = None"
| "getVxlanBD_loop bdomainIdx (bdomain # bs) =
     (if Bd_Name bdomain = ''vxlanBD'' then Some bdomainIdx
      else getVxlanBD_loop (bdomainIdx + 1) bs)"

definition getVxlanBD :: "Node \<Rightarrow> string + nat" where
  "getVxlanBD node =
     (case getVxlanBD_loop 0 (NodeBridgeDomains node) of
        Some bdomainIdx \<Rightarrow> Inr bdomainIdx
      | None \<Rightarrow> Inl ''vxlanBD not found'')"

record FibVars =
  fib_s :: State
  fib_errCnt :: nat
  fib_fibHasLoopIF :: bool
  fib_nodeFibMap :: keyset
  fib_fibNodeMap :: keyset

definition fib_error :: "string \<Rightarrow> msg \<Rightarrow> FibVars \<Rightarrow> FibVars" where
  "fib_error nodeName m x =
     x\<lparr>fib_errCnt := fib_errCnt x + 1, fib_s := AppendToNodeReport nodeName m (fib_s x)\<rparr>"

definition fib_error_log :: "string \<Rightarrow> msg \<Rightarrow> FibVars \<Rightarrow> FibVars" where
  "fib_error_log nodeName m x =
     x\<lparr>fib_errCnt := fib_errCnt x + 1, fib_s := LogErrAndAppendToNodeReport nodeName m (fib_s x)\<rparr>"

text \<open>The body of the first loop over \<^verbatim>\<open>node.NodeL2Fibs\<close>, which fills \<^verbatim>\<open>fibNodeMap\<close>.\<close>

definition Fib_mark :: "nat \<Rightarrow> string \<times> NodeL2FibEntry \<Rightarrow> keyset \<Rightarrow> keyset" where
  "Fib_mark vxLanBD = (\<lambda>(feKey, feVal) fibNodeMap.
     if int (FeMeta_BridgeDomainID feVal) \<noteq> int vxLanBD then fibNodeMap
     else if \<not> Fe_StaticConfig feVal then fibNodeMap
     else set_key feKey fibNodeMap)"

text \<open>The body of the second loop over \<^verbatim>\<open>node.NodeL2Fibs\<close>.\<close>

definition Fib_entry :: "Validator \<Rightarrow> Node \<Rightarrow> nat \<Rightarrow> string \<times> NodeL2FibEntry \<Rightarrow> FibVars \<Rightarrow> FibVars" where
  "Fib_entry v node vxLanBD = (\<lambda>(feKey, feVal) x.
     if int (FeMeta_BridgeDomainID feVal) \<noteq> int vxLanBD then x
     else if \<not> Fe_StaticConfig feVal then x
     else if Fe_BridgedVirtualInterface feVal then
       (let x1 = (case GetNodeLoopIFInfo v node of
                    None \<Rightarrow>
                      fib_error (Node_Name node)
                        (Sprintf ''invalid L2Fib BVI entry %s: loop interface not found on node %s''
                           [S feKey, S (Node_Name node)]) x
                  | Some loopIf \<Rightarrow>
                      if Fe_PhysAddress feVal \<noteq> If_PhysAddress loopIf
                      then fib_error_log (Node_Name node)
                             (Sprintf (''L2Fib BVI entry %s invalid - bad MAC address; '' @
                                       ''have %s, expecting %s'')
                                [S feKey, S (Fe_PhysAddress feVal), S (If_PhysAddress loopIf)]) x
                      else x);
            x2 = (case RetrieveNodeByLoopMacAddr v (Fe_PhysAddress feVal) of
                    Some n \<Rightarrow> x1\<lparr>fib_fibHasLoopIF := True\<rparr>
                  | None \<Rightarrow>
                      fib_error_log (Node_Name node)
                        (Sprintf (''L2Fib validator internal error: '' @
                                  ''inconsistent MAC Address index, MAC %s'')
                           [S (Fe_PhysAddress feVal)]) x1)
        in x2\<lparr>fib_fibNodeMap := delete_key feKey (fib_fibNodeMap x2),
              fib_nodeFibMap := delete_key (Node_Name node) (fib_nodeFibMap x2)\<rparr>)
     else
       (case map_of (NodeInterfaces node) (int (FeMeta_OutgoingIfIndex feVal)) of
          None \<Rightarrow>
            fib_error (Node_Name node)
              (Sprintf (''outgoing interface for L2Fib entry %s not found ifName %s, '' @
                        ''ifIndex %d'')
                 [S (Fe_PhysAddress feVal), S (Fe_OutgoingIfName feVal),
                  N (FeMeta_OutgoingIfIndex feVal)]) x
        | Some intf \<Rightarrow>
            (case RetrieveNodeByGigEIPAddr v (If_Vxlan_DstAddress intf) of
               None \<Rightarrow>
                 fib_error (Node_Name node)
                   (Sprintf (''invalid L2Fib entry %s: '' @
                             ''remote node for VXLAN DstIP %s not found'')
                      [S feKey, S (If_Vxlan_DstAddress intf)]) x
             | Some macNode \<Rightarrow>
                 (case GetNodeLoopIFInfo v macNode of
                    None \<Rightarrow>
                      fib_error (Node_Name node)
                        (Sprintf ''invalid L2Fib entry %s: missing loop interface on remote node %s''
                           [S (Fe_PhysAddress feVal), S (Node_Name macNode)])
                        (x\<lparr>fib_fibNodeMap := delete_key feKey (fib_fibNodeMap x),
                           fib_nodeFibMap := delete_key (Node_Name macNode) (fib_nodeFibMap x)\<rparr>)
                  | Some remoteLoopIF \<Rightarrow>
                      (let x1 = (if If_PhysAddress remoteLoopIF \<noteq> Fe_PhysAddress feVal
                                 then fib_error (Node_Name node)
                                        (Sprintf ''invalid L2Fib entry %s: have MAC Address %s, expecting %s''
                                           [S feKey, S (Fe_PhysAddress feVal),
                                            S (If_PhysAddress remoteLoopIF)]) x
                                 else x);
                           x2 = (case RetrieveNodeByLoopMacAddr v (Fe_PhysAddress feVal) of
                                   None \<Rightarrow>
                                     fib_error (Node_Name node)
                                       (Sprintf (''L2Fib validator internal error: '' @
                                                 ''inconsistent MAC Address index, MAC %s'')
                                          [S (Fe_PhysAddress feVal)]) x1
                                 | Some n \<Rightarrow> x1)
                       in x2\<lparr>fib_fibNodeMap := delete_key feKey (fib_fibNodeMap x2),
                             fib_nodeFibMap := delete_key (Node_Name macNode) (fib_nodeFibMap x2)\<rparr>)))))"

text \<open>The three reports after the second loop.\<close>

definition Fib_node_finish :: "Node \<Rightarrow> FibVars \<Rightarrow> FibVars" where
  "Fib_node_finish node x =
     (let x1 = (if \<not> fib_fibHasLoopIF x
                then fib_error (Node_Name node)
                       (Sprintf ''L2Fib entry for the loop0 interface not found'' []) x
                else x);
          x2 = fold (\<lambda>remoteNodeName. fib_error_log (Node_Name node)
                       (Sprintf ''missing L2Fib entry for node %s'' [S remoteNodeName]))
                    (fib_nodeFibMap x1) x1
      in fold (\<lambda>fibEntry. fib_error (Node_Name node)
                 (Sprintf ''dangling L2Fib entry %s - no node for entry found'' [S fibEntry]))
              (fib_fibNodeMap x2) x2)"

definition Fib_scan ::
  "Validator \<Rightarrow> Node list \<Rightarrow> Node \<Rightarrow> nat \<Rightarrow> (string \<times> NodeL2FibEntry) list \<Rightarrow> State \<Rightarrow> nat \<Rightarrow> FibVars"
where
  "Fib_scan v nodeList node vxLanBD fibs s errCnt =
     fold (Fib_entry v node vxLanBD) fibs
       \<lparr>fib_s = s, fib_errCnt = errCnt, fib_fibHasLoopIF = False,
        fib_nodeFibMap = fold (\<lambda>n m. set_key (Node_Name n) m) nodeList [],
        fib_fibNodeMap = fold (Fib_mark vxLanBD) fibs []\<rparr>"

definition Fib_node :: "Validator \<Rightarrow> Node list \<Rightarrow> Node \<Rightarrow> State \<times> nat \<Rightarrow> State \<times> nat" where
  "Fib_node v nodeList node = (\<lambda>(s, errCnt).
     case getVxlanBD node of
       Inl err \<Rightarrow>
         (AppendToNodeReport (Node_Name node)
            (Sprintf ''%s - skipping L2Fib validation for node %s'' [S err, S (Node_Name node)]) s,
          errCnt + 1)
     | Inr vxLanBD \<Rightarrow>
         (let x = Fib_node_finish node
                    (Fib_scan v nodeList node vxLanBD (NodeL2Fibs node) s errCnt)
          in (fib_s x, fib_errCnt x)))"

definition ValidateL2FibEntries :: "Validator \<Rightarrow> State \<Rightarrow> State" where
  "ValidateL2FibEntries v s =
     (let nodeList = RetrieveAllNodes v;
          r = fold (Fib_node v nodeList) nodeList (s, 0)
      in if snd r = 0
         then AppendToNodeReport GlobalMsg (Sprintf ''L2Fib validation: OK'' []) (fst r)
         else AppendToNodeReport GlobalMsg
                (Sprintf ''L2Fib validation: %d errors found'' [N (snd r)]) (fst r))"

section \<open>ValidateK8sNodeInfo\<close>

definition K8sNodeInfo_node ::
  "Validator \<Rightarrow> Node \<Rightarrow> State \<times> keyset \<times> keyset \<Rightarrow> State \<times> keyset \<times> keyset"
where
  "K8sNodeInfo_node v node = (\<lambda>(s, nodeMap, k8sNodeMap).
     case RetrieveK8sNode v (Node_Name node) of
       None \<Rightarrow>
         (AppendToNodeReport (Node_Name node)
            (Sprintf ''node with name %s not present in the k8s node map'' [S (Node_Name node)]) s,
          nodeMap, k8sNodeMap)
     | Some k8sNode \<Rightarrow>
         if Node_Name node = K8sNode_Name k8sNode
         then (s, delete_key (Node_Name node) nodeMap, delete_key (K8sNode_Name k8sNode) k8sNodeMap)
         else (s, nodeMap, k8sNodeMap))"

definition ValidateK8sNodeInfo :: "Validator \<Rightarrow> State \<Rightarrow> State" where
  "ValidateK8sNodeInfo v s =
     (let nodeList = RetrieveAllNodes v;
          nodeMap = fold (\<lambda>node m. set_key (Node_Name node) m) nodeList [];
          k8sNodeMap = fold (\<lambda>k8sNode m. set_key (K8sNode_Name k8sNode) m) (RetrieveAllK8sNodes v) [];
          r = fold (K8sNodeInfo_node v) nodeList (s, nodeMap, k8sNodeMap);
          s1 = fold (\<lambda>k8sNode. AppendToNodeReport k8sNode
                       (Sprintf ''Contiv node missing for K8s node %s'' [S k8sNode]))
                    (snd (snd r)) (fst r)
      in fold (\<lambda>contivNode. AppendToNodeReport contivNode
                 (Sprintf ''K8s node missing for Contiv node %s'' [S contivNode]))
              (fst (snd r)) s1)"

section \<open>ValidatePodInfo\<close>

text \<open>
  The body of the loop over \<^verbatim>\<open>k8snode.Addresses\<close>, with the counter \<^verbatim>\<open>i\<close>. An address of
  type 3 that matches is counted and then falls through to the test for type 1.
\<close>

definition PodInfo_adr :: "Pod \<Rightarrow> Node \<Rightarrow> K8sNodeAddress \<Rightarrow> State \<times> nat \<Rightarrow> State \<times> nat" where
  "PodInfo_adr pod node adr = (\<lambda>(s, i).
     if Adr_Type adr = 3 \<and> Adr_Address adr \<noteq> HostIPAddress pod
     then (AppendToNodeReport (Node_Name node)
             (Sprintf ''pod host ip %s does not match with k8snode ip %s''
                [S (HostIPAddress pod), S (Adr_Address adr)]) s, i)
     else
       (let i1 = (if Adr_Type adr = 3 then i + 1 else i)
        in if Adr_Type adr = 1
           then (if Adr_Address adr \<noteq> Node_Name node
                 then (AppendToNodeReport (Node_Name node)
                         (Sprintf ''pod host name %s does not match node name %s''
                            [S (Adr_Address adr), S (Node_Name node)]) s, i1)
                 else (s, i1 + 1))
           else (s, i1)))"

text \<open>The rest of the body of the loop over the pods, after the test of the pod map.\<close>

definition PodInfo_k8s :: "Validator \<Rightarrow> PodPtr \<Rightarrow> Node \<Rightarrow> State \<times> keyset \<Rightarrow> State \<times> keyset" where
  "PodInfo_k8s v pod node = (\<lambda>(s, podMap).
     case RetrieveK8sNode v (Node_Name node) of
       None \<Rightarrow>
         (LogErrAndAppendToNodeReport (Node_Name node)
            (Sprintf ''cannot find k8snode in k8sNodeMap for node with name %+v''
               [S (Node_Name node)]) s, podMap)
     | Some k8snode \<Rightarrow>
         (let r = fold (PodInfo_adr (Pods s pod) node) (Addresses k8snode) (s, 0)
          in if snd r \<noteq> 2 then (fst r, podMap)
             else (fst r, delete_key (Pod_Name (Pods s pod)) podMap)))"

text \<open>
  The body of the loop over the pods. \<^verbatim>\<open>pod != podPtr\<close> compares two pointers: the
  addresses, not the pods stored there.
\<close>

definition PodInfo_pod :: "Validator \<Rightarrow> PodPtr \<Rightarrow> State \<times> keyset \<Rightarrow> State \<times> keyset" where
  "PodInfo_pod v pod = (\<lambda>(s, podMap).
     case RetrieveNodeByHostIPAddr v (HostIPAddress (Pods s pod)) of
       None \<Rightarrow>
         (AppendToNodeReport GlobalMsg
            (Sprintf ''error finding node for Pod %s with host ip %s''
               [S (Pod_Name (Pods s pod)), S (HostIPAddress (Pods s pod))]) s, podMap)
     | Some node \<Rightarrow>
         (case map_of (PodMap node) (Pod_Name (Pods s pod)) of
            None \<Rightarrow>
              (AppendToNodeReport (Node_Name node)
                 (Sprintf ''pod %s in node %s podMap not found''
                    [S (Pod_Name (Pods s pod)), S (Node_Name node)]) s, podMap)
          | Some podPtr \<Rightarrow>
              if pod \<noteq> podPtr
              then (AppendToNodeReport (Node_Name node)
                      (Sprintf ''node podmap pod %+v is not the same as cache podmap pod %+v''
                         [S (Pod_Name (Pods s podPtr)), S (Pod_Name (Pods s pod))]) s, podMap)
              else PodInfo_k8s v pod node (s, podMap)))"

definition PodInfo_pods :: "Validator \<Rightarrow> State \<Rightarrow> State \<times> keyset" where
  "PodInfo_pods v s =
     (let podList = RetrieveAllPods v
      in fold (PodInfo_pod v) podList
           (s, fold (\<lambda>pod m. set_key (Pod_Name (Pods s pod)) m) podList []))"

definition ValidatePodInfo :: "Validator \<Rightarrow> State \<Rightarrow> State" where
  "ValidatePodInfo v s =
     (let r = PodInfo_pods v s
      in if length (snd r) > 0
         then fold (\<lambda>p. AppendToNodeReport GlobalMsg (Sprintf ''error processing pod %+v'' [S p]))
                (snd r) (fst r)
         else AppendToNodeReport GlobalMsg (Sprintf ''success validating pod info.'' []) (fst r))"

section \<open>Validate\<close>

text \<open>The six validations in their order; a panic ends the run.\<close>

definition Validate :: "Validator \<Rightarrow> State \<Rightarrow> panic + State" where
  "Validate v s =
     (case ValidateL2Connectivity v (ValidateArpTables v s) of
        Inl e \<Rightarrow> Inl e
      | Inr s2 \<Rightarrow>
          ValidateTapToPod v
            (ValidatePodInfo v (ValidateK8sNodeInfo v (ValidateL2FibEntries v s2))))"

section \<open>Notions used in the statements\<close>

subsection \<open>The binding of a pod\<close>

text \<open>
  Two addresses agree on their \<open>k\<close> low bits. With a prefix length \<open>ml\<close> these are the
  \<open>32 - ml\<close> bits of the host part of an address.
\<close>

definition host_bits_match :: "nat \<Rightarrow> string \<Rightarrow> string \<Rightarrow> bool" where
  "host_bits_match k podIPAddress ip =
     (take_bit k (ip2uint32 podIPAddress) = take_bit k (ip2uint32 (hd (strings_Split ip (CHR ''/'')))))"

text \<open>
  The pairs of an interface and one of its addresses at which the scan of a node binds a
  pod with the given address, in the order of the scan.
\<close>

definition tap_matches :: "nat \<Rightarrow> string \<Rightarrow> (int \<times> NodeInterface) list \<Rightarrow> (NodeInterface \<times> string) list" where
  "tap_matches k podIPAddress intfs =
     concat (map (\<lambda>(idx, intf).
                    if strings_Contains (IfMeta_VppInternalName intf) ''tap''
                    then map (Pair intf) (filter (host_bits_match k podIPAddress) (If_IPAddresses intf))
                    else []) intfs)"

definition bind_step :: "PodPtr \<Rightarrow> NodeInterface \<times> string \<Rightarrow> (PodPtr \<Rightarrow> Pod) \<times> keyset \<Rightarrow> (PodPtr \<Rightarrow> Pod) \<times> keyset" where
  "bind_step pod = (\<lambda>(intf, ip) (h, podMap).
     (h(pod := bindPod intf ip (h pod)), delete_key (Pod_Name (h pod)) podMap))"

text \<open>The state after the scan: the pod carries the binding of the last match, if any.\<close>

definition bound_to :: "PodPtr \<Rightarrow> (NodeInterface \<times> string) list \<Rightarrow> State \<times> keyset \<Rightarrow> State \<times> keyset" where
  "bound_to pod ms = (\<lambda>(s, podMap).
     case ms of
       [] \<Rightarrow> (s, podMap)
     | m # ms' \<Rightarrow>
         (s\<lparr>Pods := (Pods s)(pod := bindPod (fst (last ms)) (snd (last ms)) (Pods s pod))\<rparr>,
          delete_key (Pod_Name (Pods s pod)) podMap))"

text \<open>
  The wording of the specification: the subnet of an address entry of the interface,
  under the prefix length \<open>ml\<close>, contains the address of the pod, that is, both have
  the same \<open>ml\<close> leading bits.
\<close>

definition subnet_contains :: "nat \<Rightarrow> string \<Rightarrow> string \<Rightarrow> bool" where
  "subnet_contains ml ip podIPAddress =
     (drop_bit (32 - ml) (ip2uint32 (hd (strings_Split ip (CHR ''/'')))) =
      drop_bit (32 - ml) (ip2uint32 podIPAddress))"

subsection \<open>A cluster of one node with one pod\<close>

text \<open>
  The node \<open>node1\<close> has the host address 192.168.16.1 and one tap interface with the
  given address entry; its Kubernetes record has the given pod CIDR. The pod \<open>pod1\<close>
  at address 0 of the pod store has the given address.
\<close>

definition ex_tap :: "string \<Rightarrow> NodeInterface" where
  "ex_tap ip =
     \<lparr>If_Name = ''tap-pod1'', If_IfType = TAP_INTERFACE, If_PhysAddress = '''',
      If_IPAddresses = [ip], If_Vxlan_SrcAddress = '''', If_Vxlan_DstAddress = '''',
      If_Vxlan_Vni = 0, IfMeta_SwIfIndex = 3, IfMeta_VppInternalName = ''tap1''\<rparr>"

definition ex_node :: "string \<Rightarrow> Node" where
  "ex_node ip =
     \<lparr>Node_Name = ''node1'', NodeInterfaces = [(3, ex_tap ip)], NodeBridgeDomains = [],
      NodeIPArp = [], NodeL2Fibs = [], PodMap = [(''pod1'', 0)]\<rparr>"

definition ex_k8sNode :: "string \<Rightarrow> K8sNode" where
  "ex_k8sNode cidr =
     \<lparr>K8sNode_Name = ''node1'',
      Addresses = [\<lparr>Adr_Type = 3, Adr_Address = ''192.168.16.1''\<rparr>,
                   \<lparr>Adr_Type = 1, Adr_Address = ''node1''\<rparr>],
      Pod_CIDR = cidr\<rparr>"

definition ex_validator :: "string \<Rightarrow> string \<Rightarrow> Validator" where
  "ex_validator ip cidr =
     \<lparr>RetrieveAllNodes = [ex_node ip],
      RetrieveNodeByLoopMacAddr = (\<lambda>a. None),
      RetrieveNodeByLoopIPAddr = (\<lambda>a. None),
      RetrieveNodeByGigEIPAddr = (\<lambda>a. None),
      RetrieveNodeByHostIPAddr = (\<lambda>a. if a = ''192.168.16.1'' then Some (ex_node ip) else None),
      RetrieveAllK8sNodes = [ex_k8sNode cidr],
      RetrieveK8sNode = (\<lambda>n. if n = ''node1'' then Some (ex_k8sNode cidr) else None),
      RetrieveAllPods = [0],
      VppVNI = 10,
      GetNodeLoopIFInfo = (\<lambda>n. None)\<rparr>"

definition ex_pod :: "string \<Rightarrow> Pod" where
  "ex_pod ip =
     \<lparr>Pod_Name = ''pod1'', HostIPAddress = ''192.168.16.1'', IPAddress = ip,
      VppIfIPAddr = '''', VppIfInternalName = '''', VppIfName = '''', VppSwIfIdx = 0\<rparr>"

definition ex_state :: "string \<Rightarrow> State" where
  "ex_state ip = \<lparr>Report = [], ErrLog = [], Stdout = [], Pods = (\<lambda>p. ex_pod ip)\<rparr>"

subsection \<open>The loopback address index\<close>

text \<open>
  Modelled from the spec: the implementation of the dataplane snapshot store is not part
  of the sources at hand. Its contract \<^verbatim>\<open>NodeByLoopbackIP(ip) -> (Node, found)\<close> is a
  secondary index: a table from key strings to nodes, and a lookup finds the node stored
  under exactly the given key.
\<close>

definition NodeByLoopbackIP :: "(string \<times> Node) list \<Rightarrow> string \<Rightarrow> Node option" where
  "NodeByLoopbackIP loopIPMap ip = map_of loopIPMap ip"

text \<open>The prefix length of a key of the form address \<^verbatim>\<open>/\<close> length: the text after the last \<^verbatim>\<open>/\<close>.\<close>

definition prefix_length_of :: "string \<Rightarrow> string" where
  "prefix_length_of key = last (strings_Split key (CHR ''/''))"

subsection \<open>A cluster of three nodes with their loopback interfaces\<close>

text \<open>
  Every node has the interface \<open>vxlanBVI\<close> at index 1. The loopback addresses
  of \<open>node2\<close> and \<open>node3\<close> are 192.168.30.2 and 192.168.30.3, stored in the
  address index with the given prefix length. \<open>ex_arp_node1\<close> is \<open>node1\<close> with one
  static ARP entry for the MAC address of \<open>node2\<close> and the given address.
\<close>

definition ex_bvi :: NodeInterface where
  "ex_bvi =
     \<lparr>If_Name = ''vxlanBVI'', If_IfType = SOFTWARE_LOOPBACK, If_PhysAddress = ''1a:2b:3c:4d:5e:01'',
      If_IPAddresses = [''192.168.30.1/24''], If_Vxlan_SrcAddress = '''', If_Vxlan_DstAddress = '''',
      If_Vxlan_Vni = 0, IfMeta_SwIfIndex = 1, IfMeta_VppInternalName = ''loop0''\<rparr>"

definition ex_arp_node :: "string \<Rightarrow> Node" where
  "ex_arp_node name =
     \<lparr>Node_Name = name, NodeInterfaces = [(1, ex_bvi)], NodeBridgeDomains = [],
      NodeIPArp = [], NodeL2Fibs = [], PodMap = []\<rparr>"

definition ex_arp_node1 :: "string \<Rightarrow> Node" where
  "ex_arp_node1 ip =
     (ex_arp_node ''node1'')\<lparr>NodeIPArp :=
        [\<lparr>Ae_PhysAddress = ''1a:2b:3c:4d:5e:02'', Ae_IPAddress = ip, Ae_Static = True, AeMeta_IfIndex = 1\<rparr>]\<rparr>"

definition ex_arp_entry :: "string \<Rightarrow> string \<Rightarrow> NodeIPArpEntry" where
  "ex_arp_entry mac ip = \<lparr>Ae_PhysAddress = mac, Ae_IPAddress = ip, Ae_Static = True, AeMeta_IfIndex = 1\<rparr>"

definition ex_arp_validator :: "string \<Rightarrow> Validator" where
  "ex_arp_validator len =
     \<lparr>RetrieveAllNodes = [ex_arp_node ''node1'', ex_arp_node ''node2'', ex_arp_node ''node3''],
      RetrieveNodeByLoopMacAddr =
        map_of [(''1a:2b:3c:4d:5e:02'', ex_arp_node ''node2''), (''1a:2b:3c:4d:5e:03'', ex_arp_node ''node3'')],
      RetrieveNodeByLoopIPAddr =
        NodeByLoopbackIP [(''192.168.30.2/'' @ len, ex_arp_node ''node2''),
                          (''192.168.30.3/'' @ len, ex_arp_node ''node3'')],
      RetrieveNodeByGigEIPAddr = (\<lambda>a. None),
      RetrieveNodeByHostIPAddr = (\<lambda>a. None),
      RetrieveAllK8sNodes = [],
      RetrieveK8sNode = (\<lambda>n. None),
      RetrieveAllPods = [],
      VppVNI = 10,
      GetNodeLoopIFInfo = (\<lambda>n. None)\<rparr>"

subsection \<open>Qualifying entries of the L2 forwarding table\<close>

text \<open>
  The wording of the specification: an entry qualifies if its bridge domain id is the id
  of the overlay bridge domain and it is statically configured.
\<close>

definition fib_qualifies :: "nat \<Rightarrow> NodeL2FibEntry \<Rightarrow> bool" where
  "fib_qualifies vxLanBD feVal = (FeMeta_BridgeDomainID feVal = vxLanBD \<and> Fe_StaticConfig feVal)"

text \<open>
  A node whose overlay bridge domain has the index 1, with a dynamic entry of the overlay
  bridge domain, the static entry of its BVI, a static entry of the bridge domain 0, and
  a static entry of the overlay bridge domain whose outgoing interface 7 does not exist.
\<close>

definition ex_fib_node :: Node where
  "ex_fib_node =
     \<lparr>Node_Name = ''node1'', NodeInterfaces = [(1, ex_bvi)],
      NodeBridgeDomains =
        [\<lparr>Bd_Name = ''otherBD'', Bd_Interfaces = [], BdMeta_BdID2Name = []\<rparr>,
         \<lparr>Bd_Name = ''vxlanBD'', Bd_Interfaces = [\<lparr>BdIfc_Name = ''vxlanBVI'', BdIfc_BVI = True\<rparr>],
          BdMeta_BdID2Name = [(1, ''vxlanBVI'')]\<rparr>],
      NodeIPArp = [],
      NodeL2Fibs =
        [(''fib-dynamic'',
          \<lparr>Fe_PhysAddress = ''1a:2b:3c:4d:5e:09'', Fe_BridgedVirtualInterface = False,
           Fe_StaticConfig = False, Fe_OutgoingIfName = ''vxlan9'', FeMeta_BridgeDomainID = 1,
           FeMeta_OutgoingIfIndex = 9\<rparr>),
         (''fib-bvi'',
          \<lparr>Fe_PhysAddress = ''1a:2b:3c:4d:5e:01'', Fe_BridgedVirtualInterface = True,
           Fe_StaticConfig = True, Fe_OutgoingIfName = ''vxlanBVI'', FeMeta_BridgeDomainID = 1,
           FeMeta_OutgoingIfIndex = 1\<rparr>),
         (''fib-other'',
          \<lparr>Fe_PhysAddress = ''1a:2b:3c:4d:5e:08'', Fe_BridgedVirtualInterface = False,
           Fe_StaticConfig = True, Fe_OutgoingIfName = ''vxlan8'', FeMeta_BridgeDomainID = 0,
           FeMeta_OutgoingIfIndex = 8\<rparr>),
         (''fib-remote'',
          \<lparr>Fe_PhysAddress = ''1a:2b:3c:4d:5e:07'', Fe_BridgedVirtualInterface = False,
           Fe_StaticConfig = True, Fe_OutgoingIfName = ''vxlan7'', FeMeta_BridgeDomainID = 1,
           FeMeta_OutgoingIfIndex = 7\<rparr>)],
      PodMap = []\<rparr>"

definition ex_fib_validator :: Validator where
  "ex_fib_validator =
     \<lparr>RetrieveAllNodes = [ex_fib_node],
      RetrieveNodeByLoopMacAddr = map_of [(''1a:2b:3c:4d:5e:01'', ex_fib_node)],
      RetrieveNodeByLoopIPAddr = (\<lambda>a. None),
      RetrieveNodeByGigEIPAddr = (\<lambda>a. None),
      RetrieveNodeByHostIPAddr = (\<lambda>a. None),
      RetrieveAllK8sNodes = [],
      RetrieveK8sNode = (\<lambda>n. None),
      RetrieveAllPods = [],
      VppVNI = 10,
      GetNodeLoopIFInfo = (\<lambda>n. Some ex_bvi)\<rparr>"

subsection \<open>Clusters with overlay bridge domains\<close>

text \<open>
  \<open>ex_l2_node\<close> is a node of a cluster of one, with the given bridge domains:
  \<open>ex_vxlanBD\<close> is a well-formed overlay bridge domain for it (its BVI is the only
  member), \<open>ex_otherBD\<close> is another bridge domain without members.
\<close>

definition ex_vxlanBD :: NodeBridgeDomain where
  "ex_vxlanBD =
     \<lparr>Bd_Name = ''vxlanBD'', Bd_Interfaces = [\<lparr>BdIfc_Name = ''vxlanBVI'', BdIfc_BVI = True\<rparr>],
      BdMeta_BdID2Name = [(1, ''vxlanBVI'')]\<rparr>"

definition ex_otherBD :: NodeBridgeDomain where
  "ex_otherBD = \<lparr>Bd_Name = ''otherBD'', Bd_Interfaces = [], BdMeta_BdID2Name = []\<rparr>"

definition ex_l2_node :: "NodeBridgeDomain list \<Rightarrow> Node" where
  "ex_l2_node bds =
     \<lparr>Node_Name = ''node1'', NodeInterfaces = [(1, ex_bvi)], NodeBridgeDomains = bds,
      NodeIPArp = [], NodeL2Fibs = [], PodMap = []\<rparr>"

definition ex_l2_validator :: "NodeBridgeDomain list \<Rightarrow> Validator" where
  "ex_l2_validator bds =
     \<lparr>RetrieveAllNodes = [ex_l2_node bds],
      RetrieveNodeByLoopMacAddr = map_of [(''1a:2b:3c:4d:5e:01'', ex_l2_node bds)],
      RetrieveNodeByLoopIPAddr = (\<lambda>a. None),
      RetrieveNodeByGigEIPAddr = map_of [(''192.168.16.1'', ex_l2_node bds)],
      RetrieveNodeByHostIPAddr = (\<lambda>a. None),
      RetrieveAllK8sNodes = [],
      RetrieveK8sNode = (\<lambda>n. None),
      RetrieveAllPods = [],
      VppVNI = 10,
      GetNodeLoopIFInfo = (\<lambda>n. Some ex_bvi)\<rparr>"

text \<open>
  A cluster of two nodes. \<open>node1\<close> has its BVI and two tunnels to \<open>node2\<close>, and
  the given bridge domain: \<open>ex_mesh_BD\<close> has all three interfaces as members,
  \<open>ex_vxlanBD\<close> only the BVI. \<open>node2\<close> has a tunnel back and no bridge domain.
\<close>

definition ex_tunnel :: "string \<Rightarrow> string \<Rightarrow> string \<Rightarrow> NodeInterface" where
  "ex_tunnel name src dst =
     \<lparr>If_Name = name, If_IfType = VXLAN_TUNNEL, If_PhysAddress = '''', If_IPAddresses = [],
      If_Vxlan_SrcAddress = src, If_Vxlan_DstAddress = dst, If_Vxlan_Vni = 10,
      IfMeta_SwIfIndex = 2, IfMeta_VppInternalName = ''vxlan_tunnel0''\<rparr>"

definition ex_mesh_BD :: NodeBridgeDomain where
  "ex_mesh_BD =
     \<lparr>Bd_Name = ''vxlanBD'',
      Bd_Interfaces = [\<lparr>BdIfc_Name = ''vxlanBVI'', BdIfc_BVI = True\<rparr>,
                       \<lparr>BdIfc_Name = ''vxlan2'', BdIfc_BVI = False\<rparr>,
                       \<lparr>BdIfc_Name = ''vxlan3'', BdIfc_BVI = False\<rparr>],
      BdMeta_BdID2Name = [(1, ''vxlanBVI''), (2, ''vxlan2''), (3, ''vxlan3'')]\<rparr>"

definition ex_mesh_node1 :: "NodeBridgeDomain \<Rightarrow> Node" where
  "ex_mesh_node1 bd =
     \<lparr>Node_Name = ''node1'',
      NodeInterfaces = [(1, ex_bvi),
                        (2, ex_tunnel ''vxlan2'' ''192.168.16.1'' ''192.168.16.2''),
                        (3, ex_tunnel ''vxlan3'' ''192.168.16.1'' ''192.168.16.2'')],
      NodeBridgeDomains = [bd],
      NodeIPArp = [], NodeL2Fibs = [], PodMap = []\<rparr>"

definition ex_mesh_node2 :: Node where
  "ex_mesh_node2 =
     \<lparr>Node_Name = ''node2'',
      NodeInterfaces = [(2, ex_tunnel ''vxlan1'' ''192.168.16.2'' ''192.168.16.1'')],
      NodeBridgeDomains = [],
      NodeIPArp = [], NodeL2Fibs = [], PodMap = []\<rparr>"

definition ex_mesh_validator :: "NodeBridgeDomain \<Rightarrow> Validator" where
  "ex_mesh_validator bd =
     \<lparr>RetrieveAllNodes = [ex_mesh_node1 bd, ex_mesh_node2],
      RetrieveNodeByLoopMacAddr = map_of [(''1a:2b:3c:4d:5e:01'', ex_mesh_node1 bd)],
      RetrieveNodeByLoopIPAddr = (\<lambda>a. None),
      RetrieveNodeByGigEIPAddr =
        map_of [(''192.168.16.1'', ex_mesh_node1 bd), (''192.168.16.2'', ex_mesh_node2)],
      RetrieveNodeByHostIPAddr = (\<lambda>a. None),
      RetrieveAllK8sNodes = [],
      RetrieveK8sNode = (\<lambda>n. None),
      RetrieveAllPods = [],
      VppVNI = 10,
      GetNodeLoopIFInfo = (\<lambda>n. Some ex_bvi)\<rparr>"

subsection \<open>Members that account for a peer\<close>

text \<open>
  A member of a bridge domain stands for the node \<open>n\<close>: its interface exists on the node
  (under the index that the metadata of the bridge domain gives for its name) and the MAC
  of the interface, for a BVI member, or the destination of the tunnel, for any other
  member, resolves to a node named \<open>n\<close>.
\<close>

definition member_resolves :: "Validator \<Rightarrow> Node \<Rightarrow> NodeBridgeDomain \<Rightarrow> BdInterface \<Rightarrow> string \<Rightarrow> bool" where
  "member_resolves v node bd bdIfc n =
     (case map_of (NodeInterfaces node)
             (int (case bdName2Id_of (BdMeta_BdID2Name bd) (BdIfc_Name bdIfc) of
                     None \<Rightarrow> 0 | Some i \<Rightarrow> i)) of
        None \<Rightarrow> False
      | Some nodeIfc \<Rightarrow>
          (case (if BdIfc_BVI bdIfc then RetrieveNodeByLoopMacAddr v (If_PhysAddress nodeIfc)
                 else RetrieveNodeByGigEIPAddr v (If_Vxlan_DstAddress nodeIfc)) of
             None \<Rightarrow> False
           | Some peer \<Rightarrow> Node_Name peer = n))"

section \<open>Properties of the helpers\<close>

lemma strings_Split_not_Nil: "strings_Split s sep \<noteq> []"
  by (induction s) (auto split: list.splits)

lemma maskLoop_closed:
  "maskLoop i b m = (if i < b then push_bit (nat (b - i)) m + mask (nat (b - i)) else m)"
proof (induction i b m rule: maskLoop.induct)
  case (1 i b m)
  show ?case
  proof (cases "i < b")
    case False
    then show ?thesis by (simp add: maskLoop.simps [of i b m])
  next
    case True
    note lt = this
    have step: "maskLoop i b m = maskLoop (i + 1) b (push_bit 1 m + 1)"
      using lt by (simp add: maskLoop.simps [of i b m])
    show ?thesis
    proof (cases "i + 1 < b")
      case False
      with lt have "b - i = 1" by simp
      with lt False show ?thesis
        using "1.IH" step by (simp add: push_bit_eq_mult)
    next
      case True
      have k: "nat (b - i) = Suc (nat (b - (i + 1)))" using True by simp
      have "maskLoop i b m = maskLoop (i + 1) b (push_bit 1 m + 1)" by (rule step)
      also have "\<dots> = push_bit (nat (b - (i + 1))) (push_bit 1 m + 1) + mask (nat (b - (i + 1)))"
        using "1.IH" lt True by simp
      also have "\<dots> = push_bit (nat (b - i)) m + mask (nat (b - i))"
        unfolding k by (simp add: push_bit_eq_mult mask_eq_exp_minus_1 algebra_simps)
      finally show ?thesis using lt by simp
    qed
  qed
qed

lemma maskLength2Mask_eq: "maskLength2Mask ml = mask (nat (wrap_int64 (32 - ml)))"
  by (simp add: maskLength2Mask_def maskLoop_closed)

lemma wrap_int64_id: "- (2 ^ 63) \<le> x \<Longrightarrow> x < 2 ^ 63 \<Longrightarrow> wrap_int64 x = x"
  by (simp add: wrap_int64_def)

lemma and_mask_eq_iff: "(x AND mask k = y AND mask k) = (take_bit k x = take_bit k (y::32 word))"
  by (simp add: take_bit_eq_mask)

section \<open>The scan of the tap interfaces\<close>

lemma bindPod_keeps [simp]:
  "IPAddress (bindPod intf ip p) = IPAddress p"
  "Pod_Name (bindPod intf ip p) = Pod_Name p"
  "HostIPAddress (bindPod intf ip p) = HostIPAddress p"
  by (simp_all add: bindPod_def)

lemma bindPod_overwrites [simp]: "bindPod i2 ip2 (bindPod i1 ip1 p) = bindPod i2 ip2 p"
  by (simp add: bindPod_def)

lemma delete_key_idem [simp]: "delete_key k (delete_key k m) = delete_key k m"
  by (simp add: delete_key_def)

lemma tapIP_step_eq:
  "tapIP_step (mask k) pod intf ip (h, pm) =
     (if host_bits_match k (IPAddress (h pod)) ip then bind_step pod (intf, ip) (h, pm) else (h, pm))"
  by (simp add: tapIP_step_def bind_step_def host_bits_match_def and_mask_eq_iff Let_def)

lemma bind_step_keeps_IP: "IPAddress (fst (bind_step pod m st) pod) = IPAddress (fst st pod)"
  by (cases m; cases st) (simp add: bind_step_def)

lemma fold_bind_step_keeps_IP: "IPAddress (fst (fold (bind_step pod) ms st) pod) = IPAddress (fst st pod)"
  by (induction ms arbitrary: st) (simp_all add: bind_step_keeps_IP)

lemma fold_tapIP_step:
  "fold (tapIP_step (mask k) pod intf) ips st =
     fold (bind_step pod) (map (Pair intf) (filter (host_bits_match k (IPAddress (fst st pod))) ips)) st"
proof (induction ips arbitrary: st)
  case Nil
  show ?case by simp
next
  case (Cons ip ips)
  obtain h pm where st: "st = (h, pm)" by (cases st)
  show ?case
    by (simp add: st tapIP_step_eq Cons.IH bind_step_keeps_IP [of pod "(intf, ip)" "(h, pm)", simplified])
qed

lemma intf_step_eq:
  "intf_step bm pod (idx, intf) st =
     (if strings_Contains (IfMeta_VppInternalName intf) ''tap''
      then fold (tapIP_step bm pod intf) (If_IPAddresses intf) st else st)"
  by (simp add: intf_step_def)

lemma tap_matches_Cons:
  "tap_matches k a ((idx, intf) # intfs) =
     (if strings_Contains (IfMeta_VppInternalName intf) ''tap''
      then map (Pair intf) (filter (host_bits_match k a) (If_IPAddresses intf)) else [])
     @ tap_matches k a intfs"
  by (simp add: tap_matches_def)

lemma fold_intf_step:
  "fold (intf_step (mask k) pod) intfs st =
     fold (bind_step pod) (tap_matches k (IPAddress (fst st pod)) intfs) st"
proof (induction intfs arbitrary: st)
  case Nil
  show ?case by (simp add: tap_matches_def)
next
  case (Cons a intfs)
  obtain idx intf where a: "a = (idx, intf)" by (cases a)
  show ?case
    by (simp add: a intf_step_eq Cons.IH fold_tapIP_step fold_bind_step_keeps_IP tap_matches_Cons)
qed

lemma fold_bind_step_last:
  "ms \<noteq> [] \<Longrightarrow> fold (bind_step pod) ms (h, pm) =
     (h(pod := bindPod (fst (last ms)) (snd (last ms)) (h pod)), delete_key (Pod_Name (h pod)) pm)"
proof (induction ms arbitrary: h pm)
  case Nil
  then show ?case by simp
next
  case (Cons m ms)
  obtain intf ip where m: "m = (intf, ip)" by (cases m)
  show ?case
  proof (cases "ms = []")
    case True
    then show ?thesis by (simp add: m bind_step_def fun_eq_iff)
  next
    case False
    then show ?thesis
      using Cons.IH [OF False] by (simp add: m bind_step_def fun_eq_iff)
  qed
qed

lemma tap_scan:
  "fold (intf_step (mask k) pod) intfs (Pods s, podMap) = (h', podMap') \<Longrightarrow>
   (s\<lparr>Pods := h'\<rparr>, podMap') = bound_to pod (tap_matches k (IPAddress (Pods s pod)) intfs) (s, podMap)"
  by (cases "tap_matches k (IPAddress (Pods s pod)) intfs = []")
     (auto simp: fold_intf_step bound_to_def fold_bind_step_last split: list.splits)

lemmas ex_defs = ex_tap_def ex_node_def ex_k8sNode_def ex_validator_def ex_pod_def ex_state_def

lemmas atoi_defs = ip2uint32_def strconv_Atoi_def ParseInt_def ParseUint_def isDigit_def
  digitVal_def maxUint64_def

section \<open>The pod-to-tap binder\<close>

text \<open>
  Claim C8. A pod whose address equals its host address is removed from the tracking set
  and skipped: the state (the report and all pods with their binding fields) stays as it
  is, and the result is the same for every validator \<open>v'\<close>, so no lookup of the caches
  takes part in it.
\<close>

theorem host_network_pod_skipped:
  assumes "IPAddress (Pods s pod) = HostIPAddress (Pods s pod)"
  shows "TapToPod_pod v pod (s, podMap) = Inr (s, delete_key (Pod_Name (Pods s pod)) podMap)
       \<and> Pod_Name (Pods s pod) \<notin> set (delete_key (Pod_Name (Pods s pod)) podMap)
       \<and> TapToPod_pod v' pod (s, podMap) = TapToPod_pod v pod (s, podMap)"
  using assms by (simp add: TapToPod_pod_def delete_key_def)

theorem host_network_pod_skipped_witness:
  "IPAddress (Pods (ex_state ''192.168.16.1'') 0) = HostIPAddress (Pods (ex_state ''192.168.16.1'') 0)
   \<and> TapToPod_pod (ex_validator ''10.2.1.5/32'' ''10.1.1.0/24'') 0 (ex_state ''192.168.16.1'', [''pod1''])
       = Inr (ex_state ''192.168.16.1'', [])"
  using host_network_pod_skipped [of "ex_state ''192.168.16.1''" 0
      "ex_validator ''10.2.1.5/32'' ''10.1.1.0/24''" "[''pod1'']"]
  by (simp add: ex_defs delete_key_def)

lemma TapToPod_pod_scan:
  assumes "IPAddress (Pods s pod) \<noteq> HostIPAddress (Pods s pod)"
    and "RetrieveNodeByHostIPAddr v (HostIPAddress (Pods s pod)) = Some vppNode"
    and "RetrieveK8sNode v (Node_Name vppNode) = Some k8sNode"
    and "strings_Split (Pod_CIDR k8sNode) (CHR ''/'') = str0 # str1 # rest"
  shows "TapToPod_pod v pod (s, podMap) =
     Inr (bound_to pod
            (tap_matches (nat (wrap_int64 (32 - fst (strconv_Atoi str1))))
               (IPAddress (Pods s pod)) (NodeInterfaces vppNode))
            (if snd (strconv_Atoi str1) \<noteq> None
             then AppendToNodeReport (K8sNode_Name k8sNode)
                    (Sprintf ''invalid Pod_CIDR %s'' [S (Pod_CIDR k8sNode)]) s
             else s, podMap))"
proof -
  let ?k = "nat (wrap_int64 (32 - fst (strconv_Atoi str1)))"
  let ?s1 = "if snd (strconv_Atoi str1) \<noteq> None
             then AppendToNodeReport (K8sNode_Name k8sNode)
                    (Sprintf ''invalid Pod_CIDR %s'' [S (Pod_CIDR k8sNode)]) s
             else s"
  obtain h' pm' where f: "fold (intf_step (mask ?k) pod) (NodeInterfaces vppNode) (Pods ?s1, podMap) = (h', pm')"
    by (cases "fold (intf_step (mask ?k) pod) (NodeInterfaces vppNode) (Pods ?s1, podMap)")
  have p: "Pods ?s1 = Pods s" by (simp add: AppendToNodeReport_def)
  have "TapToPod_pod v pod (s, podMap) = Inr (?s1\<lparr>Pods := h'\<rparr>, pm')"
    using assms f by (simp add: TapToPod_pod_def Let_def maskLength2Mask_eq)
  also have "(?s1\<lparr>Pods := h'\<rparr>, pm') = bound_to pod (tap_matches ?k (IPAddress (Pods ?s1 pod)) (NodeInterfaces vppNode)) (?s1, podMap)"
    by (rule tap_scan [OF f])
  finally show ?thesis by (simp only: p)
qed

lemma tap_matches_iff:
  "(intf, ip) \<in> set (tap_matches k a intfs) \<longleftrightarrow>
     (\<exists>idx. (idx, intf) \<in> set intfs) \<and> strings_Contains (IfMeta_VppInternalName intf) ''tap''
     \<and> ip \<in> set (If_IPAddresses intf) \<and> host_bits_match k a ip"
  by (auto simp: tap_matches_def split: if_splits)

text \<open>
  Claim C1, amended. For a pod that is not on the host network, whose host address
  resolves to a node with a Kubernetes record and a pod CIDR of prefix length \<open>ml\<close>
  between 0 and 32, the mask is \<open>2 ^ (32 - ml) - 1\<close>. The binder binds the pod at
  exactly those address entries of interfaces named as taps that agree with the address
  of the pod on the \<open>32 - ml\<close> low bits (the host part), and the pod keeps the last of
  these bindings.
\<close>

theorem tap_binding_compares_host_bits:
  assumes "IPAddress (Pods s pod) \<noteq> HostIPAddress (Pods s pod)"
    and "RetrieveNodeByHostIPAddr v (HostIPAddress (Pods s pod)) = Some vppNode"
    and "RetrieveK8sNode v (Node_Name vppNode) = Some k8sNode"
    and "strings_Split (Pod_CIDR k8sNode) (CHR ''/'') = str0 # str1 # rest"
    and "strconv_Atoi str1 = (ml, None)"
    and "0 \<le> ml" and "ml \<le> 32"
  shows "maskLength2Mask ml = mask (nat (32 - ml))
     \<and> TapToPod_pod v pod (s, podMap) =
         Inr (bound_to pod (tap_matches (nat (32 - ml)) (IPAddress (Pods s pod)) (NodeInterfaces vppNode))
                (s, podMap))
     \<and> ((intf, ip) \<in> set (tap_matches (nat (32 - ml)) (IPAddress (Pods s pod)) (NodeInterfaces vppNode)) \<longleftrightarrow>
          (\<exists>idx. (idx, intf) \<in> set (NodeInterfaces vppNode))
          \<and> strings_Contains (IfMeta_VppInternalName intf) ''tap''
          \<and> ip \<in> set (If_IPAddresses intf)
          \<and> take_bit (nat (32 - ml)) (ip2uint32 (IPAddress (Pods s pod)))
              = take_bit (nat (32 - ml)) (ip2uint32 (hd (strings_Split ip (CHR ''/'')))))"
proof -
  have w: "wrap_int64 (32 - ml) = 32 - ml"
    using assms(6,7) by (intro wrap_int64_id) simp_all
  show ?thesis
    using TapToPod_pod_scan [OF assms(1-4), of podMap] assms(5)
    by (simp add: w maskLength2Mask_eq tap_matches_iff host_bits_match_def)
qed

theorem tap_binding_compares_host_bits_witness:
  "TapToPod_pod (ex_validator ''10.2.1.5/32'' ''10.1.1.0/24'') 0 (ex_state ''10.1.1.5'', [''pod1'']) =
     Inr ((ex_state ''10.1.1.5'')
            \<lparr>Pods := (Pods (ex_state ''10.1.1.5''))
                       (0 := bindPod (ex_tap ''10.2.1.5/32'') ''10.2.1.5/32'' (ex_pod ''10.1.1.5''))\<rparr>, [])"
  using tap_binding_compares_host_bits [of "ex_state ''10.1.1.5''" 0
      "ex_validator ''10.2.1.5/32'' ''10.1.1.0/24''" "ex_node ''10.2.1.5/32''"
      "ex_k8sNode ''10.1.1.0/24''" "''10.1.1.0''" "''24''" "[]" 24 "[''pod1'']"]
  by (simp add: ex_defs atoi_defs bound_to_def tap_matches_def host_bits_match_def delete_key_def)

text \<open>
  Claim C1 as stated fails. With the pod CIDR 10.1.1.0/24 and the pod at 10.1.1.5, a tap
  at 10.1.1.6/24 lies in the subnet of the pod and is not bound, and a tap at 10.2.1.5/32
  lies outside of it and is bound.
\<close>

theorem same_subnet_tap_not_bound:
  "subnet_contains 24 ''10.1.1.6/24'' ''10.1.1.5''
   \<and> TapToPod_pod (ex_validator ''10.1.1.6/24'' ''10.1.1.0/24'') 0 (ex_state ''10.1.1.5'', [''pod1''])
       = Inr (ex_state ''10.1.1.5'', [''pod1''])
   \<and> \<not> subnet_contains 24 ''10.2.1.5/32'' ''10.1.1.5''
   \<and> TapToPod_pod (ex_validator ''10.2.1.5/32'' ''10.1.1.0/24'') 0 (ex_state ''10.1.1.5'', [''pod1''])
       = Inr ((ex_state ''10.1.1.5'')
            \<lparr>Pods := (Pods (ex_state ''10.1.1.5''))
                       (0 := bindPod (ex_tap ''10.2.1.5/32'') ''10.2.1.5/32'' (ex_pod ''10.1.1.5''))\<rparr>, [])"
  by (simp add: subnet_contains_def TapToPod_pod_def tapIP_step_def intf_step_def
        maskLength2Mask_def wrap_int64_def maskLoop.simps ex_defs atoi_defs delete_key_def Let_def)

lemma Atoi_syntax_error_zero: "strconv_Atoi s = (i, Some ErrSyntax) \<Longrightarrow> i = 0"
  by (auto simp: strconv_Atoi_def ParseInt_def Let_def split: if_splits prod.splits option.splits NumError.splits)

lemma host_bits_match_32:
  "host_bits_match 32 a ip \<longleftrightarrow> ip2uint32 a = ip2uint32 (hd (strings_Split ip (CHR ''/'')))"
  by (simp add: host_bits_match_def take_bit_word_eq_self)

lemma Atoi_range_error:
  "strconv_Atoi s = (i, Some ErrRange) \<Longrightarrow> i = 2 ^ 63 - 1 \<or> i = - (2 ^ 63)"
  by (auto simp: strconv_Atoi_def ParseInt_def Let_def split: if_splits prod.splits option.splits NumError.splits)

lemma host_bits_match_0: "host_bits_match 0 a ip"
  by (simp add: host_bits_match_def)

text \<open>
  Claim C9, amended. When \<^verbatim>\<open>strconv.Atoi\<close> fails on the text after the first \<^verbatim>\<open>/\<close> of the
  pod CIDR, the binder reports the invalid pod CIDR for the node and goes on with the
  scan, using the value that \<^verbatim>\<open>Atoi\<close> returned. After a syntax error this value is 0:
  the mask has all 32 bits set, and the pod is bound at exactly the address entries of
  tap interfaces whose address equals the address of the pod as a 32-bit value. After a
  range error the value is the largest or the smallest \<^verbatim>\<open>int\<close>: the mask is 0, and the
  pod is bound at every address entry of a tap interface.
\<close>

theorem cidr_parse_error_keeps_scanning:
  assumes "IPAddress (Pods s pod) \<noteq> HostIPAddress (Pods s pod)"
    and "RetrieveNodeByHostIPAddr v (HostIPAddress (Pods s pod)) = Some vppNode"
    and "RetrieveK8sNode v (Node_Name vppNode) = Some k8sNode"
    and "strings_Split (Pod_CIDR k8sNode) (CHR ''/'') = str0 # str1 # rest"
    and "strconv_Atoi str1 = (i, Some e)"
  shows "TapToPod_pod v pod (s, podMap) =
         Inr (bound_to pod
                (tap_matches (nat (wrap_int64 (32 - i))) (IPAddress (Pods s pod)) (NodeInterfaces vppNode))
                (AppendToNodeReport (K8sNode_Name k8sNode)
                   (Sprintf ''invalid Pod_CIDR %s'' [S (Pod_CIDR k8sNode)]) s, podMap))
     \<and> (e = ErrSyntax \<longrightarrow>
          i = 0 \<and> maskLength2Mask i = - 1 \<and> nat (wrap_int64 (32 - i)) = 32
          \<and> ((intf, ip) \<in> set (tap_matches 32 (IPAddress (Pods s pod)) (NodeInterfaces vppNode)) \<longleftrightarrow>
                (\<exists>idx. (idx, intf) \<in> set (NodeInterfaces vppNode))
                \<and> strings_Contains (IfMeta_VppInternalName intf) ''tap''
                \<and> ip \<in> set (If_IPAddresses intf)
                \<and> ip2uint32 (IPAddress (Pods s pod)) = ip2uint32 (hd (strings_Split ip (CHR ''/'')))))
     \<and> (e = ErrRange \<longrightarrow>
          (i = 2 ^ 63 - 1 \<or> i = - (2 ^ 63)) \<and> maskLength2Mask i = 0 \<and> nat (wrap_int64 (32 - i)) = 0
          \<and> ((intf, ip) \<in> set (tap_matches 0 (IPAddress (Pods s pod)) (NodeInterfaces vppNode)) \<longleftrightarrow>
                (\<exists>idx. (idx, intf) \<in> set (NodeInterfaces vppNode))
                \<and> strings_Contains (IfMeta_VppInternalName intf) ''tap''
                \<and> ip \<in> set (If_IPAddresses intf)))"
proof (intro conjI impI)
  show "TapToPod_pod v pod (s, podMap) =
         Inr (bound_to pod
                (tap_matches (nat (wrap_int64 (32 - i))) (IPAddress (Pods s pod)) (NodeInterfaces vppNode))
                (AppendToNodeReport (K8sNode_Name k8sNode)
                   (Sprintf ''invalid Pod_CIDR %s'' [S (Pod_CIDR k8sNode)]) s, podMap))"
    using TapToPod_pod_scan [OF assms(1-4), of podMap] assms(5) by simp
next
  assume e: "e = ErrSyntax"
  with assms(5) show i: "i = 0" by (simp add: Atoi_syntax_error_zero)
  show k: "nat (wrap_int64 (32 - i)) = 32" by (simp add: i wrap_int64_def)
  show "maskLength2Mask i = - 1"
    by (simp add: maskLength2Mask_eq k mask_eq_exp_minus_1)
  show "(intf, ip) \<in> set (tap_matches 32 (IPAddress (Pods s pod)) (NodeInterfaces vppNode)) \<longleftrightarrow>
                (\<exists>idx. (idx, intf) \<in> set (NodeInterfaces vppNode))
                \<and> strings_Contains (IfMeta_VppInternalName intf) ''tap''
                \<and> ip \<in> set (If_IPAddresses intf)
                \<and> ip2uint32 (IPAddress (Pods s pod)) = ip2uint32 (hd (strings_Split ip (CHR ''/'')))"
    by (simp add: tap_matches_iff host_bits_match_32)
next
  assume e: "e = ErrRange"
  with assms(5) have "strconv_Atoi str1 = (i, Some ErrRange)" by simp
  then show i: "i = 2 ^ 63 - 1 \<or> i = - (2 ^ 63)" by (rule Atoi_range_error)
  then show k: "nat (wrap_int64 (32 - i)) = 0" by (auto simp: wrap_int64_def)
  show "maskLength2Mask i = 0"
    by (simp add: maskLength2Mask_eq k)
  show "(intf, ip) \<in> set (tap_matches 0 (IPAddress (Pods s pod)) (NodeInterfaces vppNode)) \<longleftrightarrow>
                (\<exists>idx. (idx, intf) \<in> set (NodeInterfaces vppNode))
                \<and> strings_Contains (IfMeta_VppInternalName intf) ''tap''
                \<and> ip \<in> set (If_IPAddresses intf)"
    by (simp add: tap_matches_iff host_bits_match_0)
qed

theorem cidr_parse_error_keeps_scanning_witness:
  "strconv_Atoi ''x'' = (0, Some ErrSyntax)
   \<and> TapToPod_pod (ex_validator ''10.1.1.5/32'' ''10.1.1.0/x'') 0 (ex_state ''10.1.1.5'', [''pod1'']) =
     Inr ((ex_state ''10.1.1.5'')
            \<lparr>Report := [(''node1'', Sprintf ''invalid Pod_CIDR %s'' [S ''10.1.1.0/x''])],
             Pods := (Pods (ex_state ''10.1.1.5''))
                       (0 := bindPod (ex_tap ''10.1.1.5/32'') ''10.1.1.5/32'' (ex_pod ''10.1.1.5''))\<rparr>, [])"
  using cidr_parse_error_keeps_scanning [where s = "ex_state ''10.1.1.5''" and pod = 0
      and v = "ex_validator ''10.1.1.5/32'' ''10.1.1.0/x''" and vppNode = "ex_node ''10.1.1.5/32''"
      and k8sNode = "ex_k8sNode ''10.1.1.0/x''" and ?str0.0 = "''10.1.1.0''" and ?str1.0 = "''x''"
      and rest = "[]" and i = 0 and e = ErrSyntax and podMap = "[''pod1'']"]
  by (simp add: ex_defs atoi_defs bound_to_def tap_matches_def host_bits_match_def delete_key_def
        AppendToNodeReport_def)

text \<open>
  Claim C9 as stated fails when the parse fails with a range error: \<^verbatim>\<open>strconv.Atoi\<close> then
  returns the largest \<^verbatim>\<open>int\<close>, not 0, the mask is 0 and not the mask of the prefix
  length zero, and the pod at 10.1.1.5 is bound to a tap at 10.2.1.9.
\<close>

theorem cidr_range_error_binds_any_tap:
  "strconv_Atoi ''9223372036854775808'' = (9223372036854775807, Some ErrRange)
   \<and> maskLength2Mask 9223372036854775807 = 0
   \<and> ip2uint32 ''10.1.1.5'' \<noteq> ip2uint32 ''10.2.1.9''
   \<and> TapToPod_pod (ex_validator ''10.2.1.9/32'' ''10.1.1.0/9223372036854775808'') 0
        (ex_state ''10.1.1.5'', [''pod1'']) =
     Inr ((ex_state ''10.1.1.5'')
            \<lparr>Report := [(''node1'', Sprintf ''invalid Pod_CIDR %s'' [S ''10.1.1.0/9223372036854775808''])],
             Pods := (Pods (ex_state ''10.1.1.5''))
                       (0 := bindPod (ex_tap ''10.2.1.9/32'') ''10.2.1.9/32'' (ex_pod ''10.1.1.5''))\<rparr>, [])"
  by (simp add: TapToPod_pod_def tapIP_step_def intf_step_def
        maskLength2Mask_def wrap_int64_def maskLoop.simps ex_defs atoi_defs delete_key_def Let_def
        AppendToNodeReport_def)

text \<open>
  Claim C5 fails on the code. In a cluster of one node whose Kubernetes record has an
  empty pod CIDR, with one pod that is not on the host network, \<^verbatim>\<open>str[1]\<close> in
  \<^verbatim>\<open>ValidateTapToPod\<close> is out of range and the panic leaves \<^verbatim>\<open>Validate\<close>.
\<close>

theorem empty_pod_cidr_panics:
  "Validate (ex_validator ''10.2.1.5/32'' '''') (ex_state ''10.1.1.5'') = Inl IndexOutOfRange"
  by (simp add: Validate_def ValidateTapToPod_def TapToPod_pod_def ex_defs set_key_def
      ValidateL2Connectivity_def L2_nodes_def L2_node_def L2_finish_def
      ValidateArpTables_def Arp_node_def Arp_scan_def Arp_missing_def Arp_loopNodeMap_def
      ValidateL2FibEntries_def Fib_node_def getVxlanBD_def
      ValidateK8sNodeInfo_def K8sNodeInfo_node_def
      ValidatePodInfo_def PodInfo_pods_def PodInfo_pod_def PodInfo_k8s_def PodInfo_adr_def
      AppendToNodeReport_def delete_key_def Let_def)

section \<open>The pod info cross-validator\<close>

lemma Pods_AppendToNodeReport [simp]: "Pods (AppendToNodeReport n m s) = Pods s"
  by (simp add: AppendToNodeReport_def)

lemma Pods_LogErrAndAppendToNodeReport [simp]: "Pods (LogErrAndAppendToNodeReport n m s) = Pods s"
  by (simp add: LogErrAndAppendToNodeReport_def)

lemma set_delete_key [simp]: "set (delete_key k m) = set m - {k}"
  by (simp add: delete_key_def)

lemma set_fold_set_key: "set (fold (\<lambda>x m. set_key (f x) m) xs m0) = f ` set xs \<union> set m0"
  by (induction xs arbitrary: m0) (auto simp: set_key_def)

lemma PodInfo_adr_Pods: "Pods (fst (PodInfo_adr p node adr st)) = Pods (fst st)"
  by (cases st) (simp add: PodInfo_adr_def Let_def)

lemma fold_PodInfo_adr_Pods: "Pods (fst (fold (PodInfo_adr p node) adrs st)) = Pods (fst st)"
  by (induction adrs arbitrary: st) (simp_all add: PodInfo_adr_Pods)

lemma PodInfo_k8s_Pods: "Pods (fst (PodInfo_k8s v pod node st)) = Pods (fst st)"
  by (cases st) (simp add: PodInfo_k8s_def Let_def fold_PodInfo_adr_Pods split: option.splits)

lemma PodInfo_k8s_podMap:
  "set (snd st) - {Pod_Name (Pods (fst st) pod)} \<subseteq> set (snd (PodInfo_k8s v pod node st))"
  by (cases st) (auto simp: PodInfo_k8s_def Let_def split: option.splits)

lemma PodInfo_pod_Pods: "Pods (fst (PodInfo_pod v pod st)) = Pods (fst st)"
  by (cases st) (simp add: PodInfo_pod_def PodInfo_k8s_Pods split: option.splits)

lemma PodInfo_pod_podMap:
  "set (snd st) - {Pod_Name (Pods (fst st) pod)} \<subseteq> set (snd (PodInfo_pod v pod st))"
  using PodInfo_k8s_podMap [of st pod v]
  by (cases st) (auto simp: PodInfo_pod_def split: option.splits)

lemma PodInfo_pod_skip:
  assumes "RetrieveNodeByHostIPAddr v (HostIPAddress (Pods s pod)) = Some node"
    and "map_of (PodMap node) (Pod_Name (Pods s pod)) \<noteq> Some pod"
  shows "\<exists>m. PodInfo_pod v pod (s, podMap) = (AppendToNodeReport (Node_Name node) m s, podMap)"
  using assms by (cases "map_of (PodMap node) (Pod_Name (Pods s pod))") (auto simp: PodInfo_pod_def Sprintf_def)

lemma fold_PodInfo_pod_keeps:
  assumes "n \<in> set (snd st)"
    and "\<And>q. q \<in> set pods \<Longrightarrow> q \<noteq> pod \<Longrightarrow> Pod_Name (Pods (fst st) q) \<noteq> n"
    and "Pod_Name (Pods (fst st) pod) = n"
    and "RetrieveNodeByHostIPAddr v (HostIPAddress (Pods (fst st) pod)) = Some node"
    and "map_of (PodMap node) n \<noteq> Some pod"
  shows "n \<in> set (snd (fold (PodInfo_pod v) pods st))"
  using assms
proof (induction pods arbitrary: st)
  case Nil
  then show ?case by simp
next
  case (Cons q pods)
  let ?st = "PodInfo_pod v q st"
  have P: "Pods (fst ?st) = Pods (fst st)" by (rule PodInfo_pod_Pods)
  have "n \<in> set (snd ?st)"
  proof (cases "q = pod")
    case True
    obtain s pm where st: "st = (s, pm)" by (cases st)
    from PodInfo_pod_skip [of v s pod node pm] Cons.prems st
    obtain m where "PodInfo_pod v pod (s, pm) = (AppendToNodeReport (Node_Name node) m s, pm)"
      by auto
    with True st Cons.prems(1) show ?thesis by simp
  next
    case False
    with Cons.prems(2) [of q] have "Pod_Name (Pods (fst st) q) \<noteq> n" by simp
    with Cons.prems(1) PodInfo_pod_podMap [of st q v] show ?thesis by auto
  qed
  then show ?case
    using Cons.IH [of ?st] Cons.prems by (simp add: P)
qed

text \<open>
  Claim C7. For a pod whose host address resolves to a node: when the pod map of the
  node holds, under the name of the pod, the pointer to this very pod, the pod goes on
  to the lookup of the Kubernetes node; when the entry is absent or is another pointer,
  one line is added to the report of the node and the tracking set stays as it is. If
  moreover no other pod of the cache has the same name, the name is still in the
  tracking set after the loop over all pods.
\<close>

theorem pod_map_identity_gate:
  assumes "RetrieveNodeByHostIPAddr v (HostIPAddress (Pods s pod)) = Some node"
  shows "(map_of (PodMap node) (Pod_Name (Pods s pod)) = Some pod \<longrightarrow>
            PodInfo_pod v pod (s, podMap) = PodInfo_k8s v pod node (s, podMap))
     \<and> (map_of (PodMap node) (Pod_Name (Pods s pod)) \<noteq> Some pod \<longrightarrow>
            (\<exists>m. PodInfo_pod v pod (s, podMap) = (AppendToNodeReport (Node_Name node) m s, podMap)))
     \<and> (map_of (PodMap node) (Pod_Name (Pods s pod)) \<noteq> Some pod
          \<and> pod \<in> set (RetrieveAllPods v)
          \<and> (\<forall>q \<in> set (RetrieveAllPods v). q \<noteq> pod \<longrightarrow> Pod_Name (Pods s q) \<noteq> Pod_Name (Pods s pod)) \<longrightarrow>
            Pod_Name (Pods s pod) \<in> set (snd (PodInfo_pods v s)))"
proof (intro conjI impI)
  assume "map_of (PodMap node) (Pod_Name (Pods s pod)) = Some pod"
  with assms show "PodInfo_pod v pod (s, podMap) = PodInfo_k8s v pod node (s, podMap)"
    by (simp add: PodInfo_pod_def)
next
  assume "map_of (PodMap node) (Pod_Name (Pods s pod)) \<noteq> Some pod"
  with assms show "\<exists>m. PodInfo_pod v pod (s, podMap) = (AppendToNodeReport (Node_Name node) m s, podMap)"
    by (rule PodInfo_pod_skip)
next
  assume a: "map_of (PodMap node) (Pod_Name (Pods s pod)) \<noteq> Some pod
          \<and> pod \<in> set (RetrieveAllPods v)
          \<and> (\<forall>q \<in> set (RetrieveAllPods v). q \<noteq> pod \<longrightarrow> Pod_Name (Pods s q) \<noteq> Pod_Name (Pods s pod))"
  let ?m0 = "fold (\<lambda>pod m. set_key (Pod_Name (Pods s pod)) m) (RetrieveAllPods v) []"
  have "Pod_Name (Pods s pod) \<in> set ?m0"
    using a by (simp add: set_fold_set_key)
  then have "Pod_Name (Pods s pod) \<in> set (snd (fold (PodInfo_pod v) (RetrieveAllPods v) (s, ?m0)))"
    using a assms by (intro fold_PodInfo_pod_keeps [where pod = pod and node = node]) auto
  then show "Pod_Name (Pods s pod) \<in> set (snd (PodInfo_pods v s))"
    by (simp add: PodInfo_pods_def Let_def)
qed

theorem pod_map_identity_gate_witness:
  "RetrieveNodeByHostIPAddr ((ex_validator ''10.2.1.5/32'' ''10.1.1.0/24'')\<lparr>RetrieveAllPods := [1]\<rparr>)
      (HostIPAddress (Pods (ex_state ''10.1.1.5'') 1)) = Some (ex_node ''10.2.1.5/32'')
   \<and> map_of (PodMap (ex_node ''10.2.1.5/32'')) (Pod_Name (Pods (ex_state ''10.1.1.5'') 1)) = Some 0
   \<and> PodInfo_pod ((ex_validator ''10.2.1.5/32'' ''10.1.1.0/24'')\<lparr>RetrieveAllPods := [1]\<rparr>) 1
        (ex_state ''10.1.1.5'', [''pod1'']) =
       (AppendToNodeReport ''node1''
          (Sprintf ''node podmap pod %+v is not the same as cache podmap pod %+v'' [S ''pod1'', S ''pod1''])
          (ex_state ''10.1.1.5''), [''pod1''])
   \<and> ''pod1'' \<in> set (snd (PodInfo_pods ((ex_validator ''10.2.1.5/32'' ''10.1.1.0/24'')\<lparr>RetrieveAllPods := [1]\<rparr>)
                             (ex_state ''10.1.1.5'')))
   \<and> map_of (PodMap (ex_node ''10.2.1.5/32'')) (Pod_Name (Pods (ex_state ''10.1.1.5'') 0)) = Some 0
   \<and> PodInfo_pod (ex_validator ''10.2.1.5/32'' ''10.1.1.0/24'') 0 (ex_state ''10.1.1.5'', [''pod1'']) =
       (ex_state ''10.1.1.5'', [])"
  using pod_map_identity_gate [of "(ex_validator ''10.2.1.5/32'' ''10.1.1.0/24'')\<lparr>RetrieveAllPods := [1]\<rparr>"
          "ex_state ''10.1.1.5''" 1 "ex_node ''10.2.1.5/32''" "[''pod1'']"]
        pod_map_identity_gate [of "ex_validator ''10.2.1.5/32'' ''10.1.1.0/24''"
          "ex_state ''10.1.1.5''" 0 "ex_node ''10.2.1.5/32''" "[''pod1'']"]
  by (simp add: ex_defs PodInfo_pod_def PodInfo_k8s_def PodInfo_adr_def delete_key_def
        AppendToNodeReport_def)

section \<open>The ARP table validator\<close>

lemmas ex_arp_defs = ex_bvi_def ex_arp_node_def ex_arp_entry_def ex_arp_validator_def NodeByLoopbackIP_def

lemma strings_Split_append:
  "strings_Split (a @ sep # b) sep = strings_Split a sep @ strings_Split b sep"
proof (induction a)
  case Nil
  show ?case by simp
next
  case (Cons c a)
  show ?case
    using strings_Split_not_Nil [of a sep]
    by (cases "strings_Split a sep") (simp_all add: Cons.IH)
qed

lemma prefix_length_of_append:
  "prefix_length_of (a @ CHR ''/'' # b) = prefix_length_of b"
  by (simp add: prefix_length_of_def strings_Split_append strings_Split_not_Nil)

lemma prefix_length_of_24: "prefix_length_of (a @ ''/24'') = ''24''"
  using prefix_length_of_append [of a "''24''"] by (simp add: prefix_length_of_def)

lemma distinct_set_key: "distinct m \<Longrightarrow> distinct (set_key k m)"
  by (simp add: set_key_def)

lemma distinct_delete_key: "distinct m \<Longrightarrow> distinct (delete_key k m)"
  by (simp add: delete_key_def distinct_removeAll)

lemma distinct_fold_set_key:
  "distinct m0 \<Longrightarrow> distinct (fold (\<lambda>x m. if P x then set_key (f x) m else m) xs m0)"
  by (induction xs arbitrary: m0) (simp_all add: distinct_set_key)

lemma Arp_entry_distinct:
  "distinct (snd (snd st)) \<Longrightarrow> distinct (snd (snd (Arp_entry v node e st)))"
  by (cases st) (simp add: Arp_entry_def Let_def distinct_delete_key split: option.splits)

lemma fold_Arp_entry_distinct:
  "distinct (snd (snd st)) \<Longrightarrow> distinct (snd (snd (fold (Arp_entry v node) es st)))"
  by (induction es arbitrary: st) (simp_all add: Arp_entry_distinct)

lemma Arp_missing_eq:
  "Arp_missing node m (s, c) =
     (s\<lparr>Report := Report s @ map (\<lambda>n. (Node_Name node, Sprintf ''missing ARP entry for node %s'' [S n])) m\<rparr>,
      c + length m)"
proof (induction m arbitrary: s c)
  case Nil
  show ?case by (simp add: Arp_missing_def)
next
  case (Cons n m)
  show ?case
    using Cons.IH by (simp add: Arp_missing_def AppendToNodeReport_def)
qed

lemma Arp_entry_resolved:
  assumes "Ae_Static e"
    and "map_of (NodeInterfaces node) (int (AeMeta_IfIndex e)) = Some arpIf"
    and "If_IfType arpIf = SOFTWARE_LOOPBACK" and "If_Name arpIf = ''vxlanBVI''"
  shows "Arp_entry v node e (s, errCnt, loopNodeMap) =
     (let macNode = RetrieveNodeByLoopMacAddr v (Ae_PhysAddress e);
          s1 = (if macNode = None
                then AppendToNodeReport (Node_Name node)
                       (Sprintf ''invalid ARP entry <%s-%s>: bad MAC Addess''
                          [S (Ae_PhysAddress e), S (Ae_IPAddress e)]) s
                else s);
          errCnt1 = (if macNode = None then errCnt + 1 else errCnt);
          ipNode = RetrieveNodeByLoopIPAddr v (Ae_IPAddress e @ ''/24'');
          s2 = (if ipNode = None
                then AppendToNodeReport (Node_Name node)
                       (Sprintf ''invalid ARP entry <%s-%s>: bad IP Addess''
                          [S (Ae_PhysAddress e), S (Ae_IPAddress e)]) s1
                else s1);
          errCnt2 = (if ipNode = None then errCnt1 + 1 else errCnt1)
      in (case (macNode, ipNode) of
            (Some mn, Some ipn) \<Rightarrow>
              (if Node_Name mn \<noteq> Node_Name ipn
               then AppendToNodeReport (Node_Name node)
                      (Sprintf ''invalid ARP entry <%s-%s>: MAC -> node %s, IP -> node %s''
                         [S (Ae_PhysAddress e), S (Ae_IPAddress e),
                          S (Node_Name mn), S (Node_Name ipn)]) s2
               else s2,
               if Node_Name mn \<noteq> Node_Name ipn then errCnt2 + 1 else errCnt2,
               delete_key (Node_Name ipn) loopNodeMap)
          | _ \<Rightarrow> (s2, errCnt2, loopNodeMap)))"
  using assms by (simp add: Arp_entry_def)

text \<open>
  Claim C4, amended. For a static ARP entry on the interface \<open>vxlanBVI\<close> whose MAC and
  IP both resolve to nodes, the node that the IP resolves to is removed from the set of
  expected peers, whether or not the MAC resolves to the same node; when the two nodes
  differ, the mismatch is reported as well. After the scan of a node, the names left in
  the set are pairwise different and each adds one line for a missing ARP entry to the
  report of the node.
\<close>

theorem arp_peer_removed_by_ip_node:
  assumes "Ae_Static e"
    and "map_of (NodeInterfaces node) (int (AeMeta_IfIndex e)) = Some arpIf"
    and "If_IfType arpIf = SOFTWARE_LOOPBACK" and "If_Name arpIf = ''vxlanBVI''"
    and "RetrieveNodeByLoopMacAddr v (Ae_PhysAddress e) = Some macNode"
    and "RetrieveNodeByLoopIPAddr v (Ae_IPAddress e @ ''/24'') = Some ipNode"
    and "Arp_scan v node (Arp_loopNodeMap nodeList node) (s0, errCnt0) = (s1, errCnt1, m1)"
  shows "Arp_entry v node e (s, errCnt, loopNodeMap) =
     (if Node_Name macNode \<noteq> Node_Name ipNode
      then AppendToNodeReport (Node_Name node)
             (Sprintf ''invalid ARP entry <%s-%s>: MAC -> node %s, IP -> node %s''
                [S (Ae_PhysAddress e), S (Ae_IPAddress e), S (Node_Name macNode), S (Node_Name ipNode)]) s
      else s,
      if Node_Name macNode \<noteq> Node_Name ipNode then errCnt + 1 else errCnt,
      delete_key (Node_Name ipNode) loopNodeMap)
   \<and> distinct m1
   \<and> Arp_node v nodeList node (s0, errCnt0) =
       (s1\<lparr>Report := Report s1 @
                 map (\<lambda>n. (Node_Name node, Sprintf ''missing ARP entry for node %s'' [S n])) m1\<rparr>,
        errCnt1 + length m1)"
proof (intro conjI)
  show "Arp_entry v node e (s, errCnt, loopNodeMap) =
     (if Node_Name macNode \<noteq> Node_Name ipNode
      then AppendToNodeReport (Node_Name node)
             (Sprintf ''invalid ARP entry <%s-%s>: MAC -> node %s, IP -> node %s''
                [S (Ae_PhysAddress e), S (Ae_IPAddress e), S (Node_Name macNode), S (Node_Name ipNode)]) s
      else s,
      if Node_Name macNode \<noteq> Node_Name ipNode then errCnt + 1 else errCnt,
      delete_key (Node_Name ipNode) loopNodeMap)"
    using assms(5,6) by (simp add: Arp_entry_resolved [OF assms(1-4)])
next
  have "distinct (Arp_loopNodeMap nodeList node)"
    unfolding Arp_loopNodeMap_def by (rule distinct_fold_set_key) simp
  then have "distinct (snd (snd (Arp_scan v node (Arp_loopNodeMap nodeList node) (s0, errCnt0))))"
    by (simp add: Arp_scan_def fold_Arp_entry_distinct)
  then show "distinct m1" by (simp add: assms(7))
next
  show "Arp_node v nodeList node (s0, errCnt0) =
       (s1\<lparr>Report := Report s1 @
                 map (\<lambda>n. (Node_Name node, Sprintf ''missing ARP entry for node %s'' [S n])) m1\<rparr>,
        errCnt1 + length m1)"
    by (simp add: Arp_node_def Let_def Arp_missing_eq assms(7))
qed

theorem arp_peer_removed_by_ip_node_witness:
  "Arp_entry (ex_arp_validator ''24'') (ex_arp_node1 ''192.168.30.2'')
      (ex_arp_entry ''1a:2b:3c:4d:5e:02'' ''192.168.30.2'') (ex_state ''10.1.1.5'', 0, [''node2'', ''node3''])
     = (ex_state ''10.1.1.5'', 0, [''node3''])
   \<and> Arp_node (ex_arp_validator ''24'') (RetrieveAllNodes (ex_arp_validator ''24''))
        (ex_arp_node1 ''192.168.30.2'') (ex_state ''10.1.1.5'', 0)
     = ((ex_state ''10.1.1.5'')
          \<lparr>Report := [(''node1'', Sprintf ''missing ARP entry for node %s'' [S ''node3''])]\<rparr>, 1)"
  using arp_peer_removed_by_ip_node [of "ex_arp_entry ''1a:2b:3c:4d:5e:02'' ''192.168.30.2''"
      "ex_arp_node1 ''192.168.30.2''" ex_bvi "ex_arp_validator ''24''"
      "ex_arp_node ''node2''" "ex_arp_node ''node2''"
      "RetrieveAllNodes (ex_arp_validator ''24'')" "ex_state ''10.1.1.5''" 0
      "ex_state ''10.1.1.5''" 0 "[''node3'']" "ex_state ''10.1.1.5''" 0 "[''node2'', ''node3'']"]
  by (simp add: ex_arp_defs ex_arp_node1_def ex_defs Arp_scan_def Arp_loopNodeMap_def Arp_entry_def
        set_key_def delete_key_def)

text \<open>
  Claim C4 as stated fails. An entry whose MAC resolves to \<open>node2\<close> and whose IP
  resolves to \<open>node3\<close> is reported as a mismatch, and \<open>node3\<close> is removed from the
  expected peers all the same.
\<close>

theorem arp_mismatch_removes_peer:
  "RetrieveNodeByLoopMacAddr (ex_arp_validator ''24'') ''1a:2b:3c:4d:5e:02'' = Some (ex_arp_node ''node2'')
   \<and> RetrieveNodeByLoopIPAddr (ex_arp_validator ''24'') (''192.168.30.3'' @ ''/24'') = Some (ex_arp_node ''node3'')
   \<and> Arp_entry (ex_arp_validator ''24'') (ex_arp_node1 ''192.168.30.3'')
        (ex_arp_entry ''1a:2b:3c:4d:5e:02'' ''192.168.30.3'') (ex_state ''10.1.1.5'', 0, [''node2'', ''node3''])
     = (AppendToNodeReport ''node1''
          (Sprintf ''invalid ARP entry <%s-%s>: MAC -> node %s, IP -> node %s''
             [S ''1a:2b:3c:4d:5e:02'', S ''192.168.30.3'', S ''node2'', S ''node3''])
          (ex_state ''10.1.1.5''), 1, [''node2''])"
  by (simp add: ex_arp_defs ex_arp_node1_def ex_defs Arp_entry_def delete_key_def)

lemma NodeByLoopbackIP_stored:
  "distinct (map fst loopIPMap) \<Longrightarrow> (key, n) \<in> set loopIPMap \<Longrightarrow> NodeByLoopbackIP loopIPMap key = Some n"
  by (simp add: NodeByLoopbackIP_def)

text \<open>
  Claim C10. For a static ARP entry on the interface \<open>vxlanBVI\<close>, the loop body
  queries the loopback address index with the address of the entry followed by
  \<^verbatim>\<open>/24\<close>: its result depends on the index only through the value at this key; when
  the index stores a node under this key, that node is the one the IP resolves to, and
  it is compared with the node of the MAC and removed from the expected peers. If no key
  of the index has the prefix length 24, the lookup fails, the entry is reported with a
  bad IP address and the expected peers stay as they are.
\<close>

theorem arp_ip_lookup_appends_slash_24:
  assumes "Ae_Static e"
    and "map_of (NodeInterfaces node) (int (AeMeta_IfIndex e)) = Some arpIf"
    and "If_IfType arpIf = SOFTWARE_LOOPBACK" and "If_Name arpIf = ''vxlanBVI''"
  shows "(RetrieveNodeByLoopMacAddr v' = RetrieveNodeByLoopMacAddr v
          \<and> RetrieveNodeByLoopIPAddr v' (Ae_IPAddress e @ ''/24'')
              = RetrieveNodeByLoopIPAddr v (Ae_IPAddress e @ ''/24'') \<longrightarrow>
            Arp_entry v' node e st = Arp_entry v node e st)
     \<and> (RetrieveNodeByLoopIPAddr v = NodeByLoopbackIP loopIPMap
          \<and> distinct (map fst loopIPMap)
          \<and> (Ae_IPAddress e @ ''/24'', ipNode) \<in> set loopIPMap
          \<and> RetrieveNodeByLoopMacAddr v (Ae_PhysAddress e) = Some macNode \<longrightarrow>
            RetrieveNodeByLoopIPAddr v (Ae_IPAddress e @ ''/24'') = Some ipNode
            \<and> Arp_entry v node e (s, errCnt, loopNodeMap) =
                (if Node_Name macNode \<noteq> Node_Name ipNode
                 then AppendToNodeReport (Node_Name node)
                        (Sprintf ''invalid ARP entry <%s-%s>: MAC -> node %s, IP -> node %s''
                           [S (Ae_PhysAddress e), S (Ae_IPAddress e),
                            S (Node_Name macNode), S (Node_Name ipNode)]) s
                 else s,
                 if Node_Name macNode \<noteq> Node_Name ipNode then errCnt + 1 else errCnt,
                 delete_key (Node_Name ipNode) loopNodeMap))
     \<and> (RetrieveNodeByLoopIPAddr v = NodeByLoopbackIP loopIPMap
          \<and> distinct (map fst loopIPMap)
          \<and> (Ae_IPAddress e @ ''/24'', ipNode) \<in> set loopIPMap
          \<and> RetrieveNodeByLoopMacAddr v (Ae_PhysAddress e) = None \<longrightarrow>
            Arp_entry v node e (s, errCnt, loopNodeMap) =
                (AppendToNodeReport (Node_Name node)
                   (Sprintf ''invalid ARP entry <%s-%s>: bad MAC Addess''
                      [S (Ae_PhysAddress e), S (Ae_IPAddress e)]) s,
                 errCnt + 1, loopNodeMap))
     \<and> (RetrieveNodeByLoopIPAddr v = NodeByLoopbackIP loopIPMap
          \<and> (\<forall>key \<in> set (map fst loopIPMap). prefix_length_of key \<noteq> ''24'') \<longrightarrow>
            RetrieveNodeByLoopIPAddr v (Ae_IPAddress e @ ''/24'') = None
            \<and> Arp_entry v node e (s, errCnt, loopNodeMap) =
                (AppendToNodeReport (Node_Name node)
                   (Sprintf ''invalid ARP entry <%s-%s>: bad IP Addess''
                      [S (Ae_PhysAddress e), S (Ae_IPAddress e)])
                   (if RetrieveNodeByLoopMacAddr v (Ae_PhysAddress e) = None
                    then AppendToNodeReport (Node_Name node)
                           (Sprintf ''invalid ARP entry <%s-%s>: bad MAC Addess''
                              [S (Ae_PhysAddress e), S (Ae_IPAddress e)]) s
                    else s),
                 (if RetrieveNodeByLoopMacAddr v (Ae_PhysAddress e) = None then errCnt + 1 else errCnt) + 1,
                 loopNodeMap))"
proof (intro conjI impI)
  assume "RetrieveNodeByLoopMacAddr v' = RetrieveNodeByLoopMacAddr v
          \<and> RetrieveNodeByLoopIPAddr v' (Ae_IPAddress e @ ''/24'')
              = RetrieveNodeByLoopIPAddr v (Ae_IPAddress e @ ''/24'')"
  then show "Arp_entry v' node e st = Arp_entry v node e st"
    by (cases st) (simp add: Arp_entry_resolved [OF assms])
next
  assume a: "RetrieveNodeByLoopIPAddr v = NodeByLoopbackIP loopIPMap
          \<and> distinct (map fst loopIPMap)
          \<and> (Ae_IPAddress e @ ''/24'', ipNode) \<in> set loopIPMap
          \<and> RetrieveNodeByLoopMacAddr v (Ae_PhysAddress e) = Some macNode"
  then show f: "RetrieveNodeByLoopIPAddr v (Ae_IPAddress e @ ''/24'') = Some ipNode"
    by (simp add: NodeByLoopbackIP_stored)
  show "Arp_entry v node e (s, errCnt, loopNodeMap) =
                (if Node_Name macNode \<noteq> Node_Name ipNode
                 then AppendToNodeReport (Node_Name node)
                        (Sprintf ''invalid ARP entry <%s-%s>: MAC -> node %s, IP -> node %s''
                           [S (Ae_PhysAddress e), S (Ae_IPAddress e),
                            S (Node_Name macNode), S (Node_Name ipNode)]) s
                 else s,
                 if Node_Name macNode \<noteq> Node_Name ipNode then errCnt + 1 else errCnt,
                 delete_key (Node_Name ipNode) loopNodeMap)"
    using a f by (simp add: Arp_entry_resolved [OF assms])
next
  assume a: "RetrieveNodeByLoopIPAddr v = NodeByLoopbackIP loopIPMap
          \<and> distinct (map fst loopIPMap)
          \<and> (Ae_IPAddress e @ ''/24'', ipNode) \<in> set loopIPMap
          \<and> RetrieveNodeByLoopMacAddr v (Ae_PhysAddress e) = None"
  then have f: "RetrieveNodeByLoopIPAddr v (Ae_IPAddress e @ ''/24'') = Some ipNode"
    by (simp add: NodeByLoopbackIP_stored)
  show "Arp_entry v node e (s, errCnt, loopNodeMap) =
                (AppendToNodeReport (Node_Name node)
                   (Sprintf ''invalid ARP entry <%s-%s>: bad MAC Addess''
                      [S (Ae_PhysAddress e), S (Ae_IPAddress e)]) s,
                 errCnt + 1, loopNodeMap)"
    using a f by (simp add: Arp_entry_resolved [OF assms])
next
  assume a: "RetrieveNodeByLoopIPAddr v = NodeByLoopbackIP loopIPMap
          \<and> (\<forall>key \<in> set (map fst loopIPMap). prefix_length_of key \<noteq> ''24'')"
  have "Ae_IPAddress e @ ''/24'' \<notin> fst ` set loopIPMap"
    using a prefix_length_of_24 [of "Ae_IPAddress e"] by auto
  then have "map_of loopIPMap (Ae_IPAddress e @ ''/24'') = None"
    by (simp add: map_of_eq_None_iff)
  with a show n: "RetrieveNodeByLoopIPAddr v (Ae_IPAddress e @ ''/24'') = None"
    by (simp add: NodeByLoopbackIP_def)
  show "Arp_entry v node e (s, errCnt, loopNodeMap) =
                (AppendToNodeReport (Node_Name node)
                   (Sprintf ''invalid ARP entry <%s-%s>: bad IP Addess''
                      [S (Ae_PhysAddress e), S (Ae_IPAddress e)])
                   (if RetrieveNodeByLoopMacAddr v (Ae_PhysAddress e) = None
                    then AppendToNodeReport (Node_Name node)
                           (Sprintf ''invalid ARP entry <%s-%s>: bad MAC Addess''
                              [S (Ae_PhysAddress e), S (Ae_IPAddress e)]) s
                    else s),
                 (if RetrieveNodeByLoopMacAddr v (Ae_PhysAddress e) = None then errCnt + 1 else errCnt) + 1,
                 loopNodeMap)"
    by (cases "RetrieveNodeByLoopMacAddr v (Ae_PhysAddress e)")
       (simp_all add: Arp_entry_resolved [OF assms] n Let_def)
qed

theorem arp_ip_lookup_appends_slash_24_witness:
  "RetrieveNodeByLoopIPAddr (ex_arp_validator ''24'') ''192.168.30.2'' = None
   \<and> RetrieveNodeByLoopIPAddr (ex_arp_validator ''24'') (''192.168.30.2'' @ ''/24'') = Some (ex_arp_node ''node2'')
   \<and> Arp_entry (ex_arp_validator ''24'') (ex_arp_node1 ''192.168.30.2'')
        (ex_arp_entry ''1a:2b:3c:4d:5e:02'' ''192.168.30.2'') (ex_state ''10.1.1.5'', 0, [''node2'', ''node3''])
     = (ex_state ''10.1.1.5'', 0, [''node3''])
   \<and> RetrieveNodeByLoopIPAddr (ex_arp_validator ''16'') ''192.168.30.2/16'' = Some (ex_arp_node ''node2'')
   \<and> RetrieveNodeByLoopIPAddr (ex_arp_validator ''16'') (''192.168.30.2'' @ ''/24'') = None
   \<and> Arp_entry (ex_arp_validator ''16'') (ex_arp_node1 ''192.168.30.2'')
        (ex_arp_entry ''1a:2b:3c:4d:5e:02'' ''192.168.30.2'') (ex_state ''10.1.1.5'', 0, [''node2'', ''node3''])
     = (AppendToNodeReport ''node1''
          (Sprintf ''invalid ARP entry <%s-%s>: bad IP Addess'' [S ''1a:2b:3c:4d:5e:02'', S ''192.168.30.2''])
          (ex_state ''10.1.1.5''), 1, [''node2'', ''node3''])"
  using arp_ip_lookup_appends_slash_24 [where e = "ex_arp_entry ''1a:2b:3c:4d:5e:02'' ''192.168.30.2''"
      and node = "ex_arp_node1 ''192.168.30.2''" and arpIf = ex_bvi
      and v = "ex_arp_validator ''24''" and v' = "ex_arp_validator ''24''"
      and st = "(ex_state ''10.1.1.5'', 0, [''node2'', ''node3''])"
      and loopIPMap = "[(''192.168.30.2/24'', ex_arp_node ''node2''), (''192.168.30.3/24'', ex_arp_node ''node3'')]"
      and ipNode = "ex_arp_node ''node2''" and macNode = "ex_arp_node ''node2''"
      and s = "ex_state ''10.1.1.5''" and errCnt = 0 and loopNodeMap = "[''node2'', ''node3'']"]
    arp_ip_lookup_appends_slash_24 [where e = "ex_arp_entry ''1a:2b:3c:4d:5e:02'' ''192.168.30.2''"
      and node = "ex_arp_node1 ''192.168.30.2''" and arpIf = ex_bvi
      and v = "ex_arp_validator ''16''" and v' = "ex_arp_validator ''16''"
      and st = "(ex_state ''10.1.1.5'', 0, [''node2'', ''node3''])"
      and loopIPMap = "[(''192.168.30.2/16'', ex_arp_node ''node2''), (''192.168.30.3/16'', ex_arp_node ''node3'')]"
      and ipNode = "ex_arp_node ''node2''" and macNode = "ex_arp_node ''node2''"
      and s = "ex_state ''10.1.1.5''" and errCnt = 0 and loopNodeMap = "[''node2'', ''node3'']"]
  by (simp add: ex_arp_defs ex_arp_node1_def ex_defs prefix_length_of_def delete_key_def)

section \<open>The L2 FIB validator\<close>

lemma getVxlanBD_loop_Some:
  "getVxlanBD_loop i bds = Some vx \<Longrightarrow>
     i \<le> vx \<and> vx - i < length bds \<and> Bd_Name (bds ! (vx - i)) = ''vxlanBD''
     \<and> (\<forall>j < vx - i. Bd_Name (bds ! j) \<noteq> ''vxlanBD'')"
proof (induction bds arbitrary: i)
  case Nil
  then show ?case by simp
next
  case (Cons b bds)
  show ?case
  proof (cases "Bd_Name b = ''vxlanBD''")
    case True
    with Cons.prems show ?thesis by simp
  next
    case False
    with Cons.prems have r: "getVxlanBD_loop (i + 1) bds = Some vx" by simp
    from Cons.IH [OF r] have ih: "i + 1 \<le> vx" "vx - (i + 1) < length bds"
      "Bd_Name (bds ! (vx - (i + 1))) = ''vxlanBD''"
      "\<forall>j < vx - (i + 1). Bd_Name (bds ! j) \<noteq> ''vxlanBD''" by auto
    have k: "vx - i = Suc (vx - (i + 1))" using ih(1) by simp
    show ?thesis
      using ih False unfolding k by (auto simp: nth_Cons split: nat.splits)
  qed
qed

lemma Fib_mark_skip: "\<not> fib_qualifies vx e \<Longrightarrow> Fib_mark vx (k, e) m = m"
  by (auto simp: Fib_mark_def fib_qualifies_def)

lemma Fib_mark_take: "fib_qualifies vx e \<Longrightarrow> Fib_mark vx (k, e) m = set_key k m"
  by (auto simp: Fib_mark_def fib_qualifies_def)

lemma Fib_entry_skip: "\<not> fib_qualifies vx e \<Longrightarrow> Fib_entry v node vx (k, e) x = x"
  by (auto simp: Fib_entry_def fib_qualifies_def)

lemma fold_Fib_mark_filter:
  "fold (Fib_mark vx) fibs m = fold (Fib_mark vx) (filter (\<lambda>(k, e). fib_qualifies vx e) fibs) m"
proof (induction fibs arbitrary: m)
  case Nil
  show ?case by simp
next
  case (Cons a fibs)
  obtain k e where a: "a = (k, e)" by (cases a)
  show ?case by (simp add: a Cons.IH Fib_mark_skip)
qed

lemma fold_Fib_entry_filter:
  "fold (Fib_entry v node vx) fibs x =
     fold (Fib_entry v node vx) (filter (\<lambda>(k, e). fib_qualifies vx e) fibs) x"
proof (induction fibs arbitrary: x)
  case Nil
  show ?case by simp
next
  case (Cons a fibs)
  obtain k e where a: "a = (k, e)" by (cases a)
  show ?case by (simp add: a Cons.IH Fib_entry_skip)
qed

lemma set_fold_Fib_mark:
  "set (fold (Fib_mark vx) fibs m) = set m \<union> {k. \<exists>e. (k, e) \<in> set fibs \<and> fib_qualifies vx e}"
proof (induction fibs arbitrary: m)
  case Nil
  show ?case by simp
next
  case (Cons a fibs)
  obtain k e where a: "a = (k, e)" by (cases a)
  show ?case
    by (cases "fib_qualifies vx e") (auto simp: a Cons.IH Fib_mark_skip Fib_mark_take set_key_def)
qed

lemma getVxlanBD_loop_None:
  "getVxlanBD_loop i bds = None \<longleftrightarrow> (\<forall>b \<in> set bds. Bd_Name b \<noteq> ''vxlanBD'')"
  by (induction bds arbitrary: i) auto

lemma getVxlanBD_found_iff:
  "(\<exists>i. getVxlanBD node = Inr i) \<longleftrightarrow> (\<exists>b \<in> set (NodeBridgeDomains node). Bd_Name b = ''vxlanBD'')"
  using getVxlanBD_loop_None [of 0 "NodeBridgeDomains node"]
  by (auto simp: getVxlanBD_def split: option.splits)

lemma fold_Fib_mark_keys:
  "fold (Fib_mark vx) fibs m =
     fold set_key (map fst (filter (\<lambda>(k, e). fib_qualifies vx e) fibs)) m"
proof (induction fibs arbitrary: m)
  case Nil
  show ?case by simp
next
  case (Cons a fibs)
  obtain k e where a: "a = (k, e)" by (cases a)
  show ?case
    by (cases "fib_qualifies vx e") (simp_all add: a Cons.IH Fib_mark_skip Fib_mark_take)
qed

lemma Fib_scan_qualifying:
  "Fib_scan v nodeList node vx fibs s errCnt =
     fold (Fib_entry v node vx) (filter (\<lambda>(k, e). fib_qualifies vx e) fibs)
       \<lparr>fib_s = s, fib_errCnt = errCnt, fib_fibHasLoopIF = False,
        fib_nodeFibMap = fold (\<lambda>n m. set_key (Node_Name n) m) nodeList [],
        fib_fibNodeMap = fold set_key (map fst (filter (\<lambda>(k, e). fib_qualifies vx e) fibs)) []\<rparr>"
  unfolding Fib_scan_def
  by (subst fold_Fib_entry_filter, subst fold_Fib_mark_keys) simp

lemma fib_error_simps [simp]:
  "fib_fibNodeMap (fib_error n m x) = fib_fibNodeMap x"
  "fib_nodeFibMap (fib_error n m x) = fib_nodeFibMap x"
  "fib_fibHasLoopIF (fib_error n m x) = fib_fibHasLoopIF x"
  "fib_errCnt (fib_error n m x) = fib_errCnt x + 1"
  "Report (fib_s (fib_error n m x)) = Report (fib_s x) @ [(n, m)]"
  by (simp_all add: fib_error_def AppendToNodeReport_def)

lemma fib_error_log_simps [simp]:
  "fib_fibNodeMap (fib_error_log n m x) = fib_fibNodeMap x"
  "fib_nodeFibMap (fib_error_log n m x) = fib_nodeFibMap x"
  "fib_fibHasLoopIF (fib_error_log n m x) = fib_fibHasLoopIF x"
  "fib_errCnt (fib_error_log n m x) = fib_errCnt x + 1"
  "Report (fib_s (fib_error_log n m x)) = Report (fib_s x) @ [(n, m)]"
  by (simp_all add: fib_error_log_def LogErrAndAppendToNodeReport_def)

lemma Fib_entry_bvi:
  assumes "fib_qualifies vx feVal" and "Fe_BridgedVirtualInterface feVal"
  shows "fib_fibNodeMap (Fib_entry v node vx (feKey, feVal) x) = delete_key feKey (fib_fibNodeMap x)"
    and "fib_nodeFibMap (Fib_entry v node vx (feKey, feVal) x) = delete_key (Node_Name node) (fib_nodeFibMap x)"
    and "fib_fibHasLoopIF (Fib_entry v node vx (feKey, feVal) x) =
           (fib_fibHasLoopIF x \<or> RetrieveNodeByLoopMacAddr v (Fe_PhysAddress feVal) \<noteq> None)"
  using assms
  by (auto simp: Fib_entry_def fib_qualifies_def Let_def split: option.splits)

lemma Fib_entry_remote_resolved:
  assumes "fib_qualifies vx feVal" and "\<not> Fe_BridgedVirtualInterface feVal"
    and "map_of (NodeInterfaces node) (int (FeMeta_OutgoingIfIndex feVal)) = Some intf"
    and "RetrieveNodeByGigEIPAddr v (If_Vxlan_DstAddress intf) = Some macNode"
  shows "fib_fibNodeMap (Fib_entry v node vx (feKey, feVal) x) = delete_key feKey (fib_fibNodeMap x)"
    and "fib_nodeFibMap (Fib_entry v node vx (feKey, feVal) x) = delete_key (Node_Name macNode) (fib_nodeFibMap x)"
    and "fib_fibHasLoopIF (Fib_entry v node vx (feKey, feVal) x) = fib_fibHasLoopIF x"
  using assms
  by (auto simp: Fib_entry_def fib_qualifies_def Let_def split: option.splits)

lemma Fib_entry_no_outgoing:
  assumes "fib_qualifies vx feVal" and "\<not> Fe_BridgedVirtualInterface feVal"
    and "map_of (NodeInterfaces node) (int (FeMeta_OutgoingIfIndex feVal)) = None"
  shows "Fib_entry v node vx (feKey, feVal) x =
     fib_error (Node_Name node)
       (Sprintf (''outgoing interface for L2Fib entry %s not found ifName %s, '' @ ''ifIndex %d'')
          [S (Fe_PhysAddress feVal), S (Fe_OutgoingIfName feVal), N (FeMeta_OutgoingIfIndex feVal)]) x"
  using assms by (simp add: Fib_entry_def fib_qualifies_def)

lemma Fib_entry_no_remote:
  assumes "fib_qualifies vx feVal" and "\<not> Fe_BridgedVirtualInterface feVal"
    and "map_of (NodeInterfaces node) (int (FeMeta_OutgoingIfIndex feVal)) = Some intf"
    and "RetrieveNodeByGigEIPAddr v (If_Vxlan_DstAddress intf) = None"
  shows "Fib_entry v node vx (feKey, feVal) x =
     fib_error (Node_Name node)
       (Sprintf (''invalid L2Fib entry %s: '' @ ''remote node for VXLAN DstIP %s not found'')
          [S feKey, S (If_Vxlan_DstAddress intf)]) x"
  using assms by (simp add: Fib_entry_def fib_qualifies_def)

lemma Fib_entry_shrinks:
  "set (fib_fibNodeMap (Fib_entry v node vx a x)) \<subseteq> set (fib_fibNodeMap x)"
  "set (fib_nodeFibMap (Fib_entry v node vx a x)) \<subseteq> set (fib_nodeFibMap x)"
  "fib_errCnt x \<le> fib_errCnt (Fib_entry v node vx a x)"
  by (cases a; auto simp: Fib_entry_def Let_def split: option.splits)+

lemma fold_Fib_entry_shrinks:
  "set (fib_fibNodeMap (fold (Fib_entry v node vx) fibs x)) \<subseteq> set (fib_fibNodeMap x)"
  "set (fib_nodeFibMap (fold (Fib_entry v node vx) fibs x)) \<subseteq> set (fib_nodeFibMap x)"
proof (induction fibs arbitrary: x)
  case Nil
  { case 1 show ?case by simp }
  { case 2 show ?case by simp }
next
  case (Cons a fibs)
  { case 1 show ?case using Cons.IH(1) [of "Fib_entry v node vx a x"] Fib_entry_shrinks(1) [of v node vx a x] by auto }
  { case 2 show ?case using Cons.IH(2) [of "Fib_entry v node vx a x"] Fib_entry_shrinks(2) [of v node vx a x] by auto }
qed


lemma fold_fib_error:
  "fold (\<lambda>k. fib_error n (f k)) ks x =
     x\<lparr>fib_errCnt := fib_errCnt x + length ks,
       fib_s := (fib_s x)\<lparr>Report := Report (fib_s x) @ map (\<lambda>k. (n, f k)) ks\<rparr>\<rparr>"
  by (induction ks arbitrary: x) (simp_all add: fib_error_def AppendToNodeReport_def)

lemma fold_fib_error_log_Report:
  "Report (fib_s (fold (\<lambda>k. fib_error_log n (f k)) ks x)) = Report (fib_s x) @ map (\<lambda>k. (n, f k)) ks"
  "fib_fibNodeMap (fold (\<lambda>k. fib_error_log n (f k)) ks x) = fib_fibNodeMap x"
  by (induction ks arbitrary: x) simp_all

lemma fold_fib_error_log_errCnt:
  "fib_errCnt (fold (\<lambda>k. fib_error_log n (f k)) ks x) = fib_errCnt x + length ks"
  "fib_nodeFibMap (fold (\<lambda>k. fib_error_log n (f k)) ks x) = fib_nodeFibMap x"
  by (induction ks arbitrary: x) simp_all

lemma errCnt_Fib_node_finish:
  "fib_errCnt (Fib_node_finish node x) =
     fib_errCnt x + (if \<not> fib_fibHasLoopIF x then 1 else 0)
       + length (fib_nodeFibMap x) + length (fib_fibNodeMap x)"
  by (simp add: Fib_node_finish_def Let_def fold_fib_error fold_fib_error_log_errCnt
        fold_fib_error_log_Report)

lemma Fib_node_skip:
  "getVxlanBD node = Inl err \<Longrightarrow>
     Fib_node v nodeList node (s, errCnt) =
       (AppendToNodeReport (Node_Name node)
          (Sprintf ''%s - skipping L2Fib validation for node %s'' [S err, S (Node_Name node)]) s,
        errCnt + 1)"
  by (simp add: Fib_node_def)

lemma Report_Fib_node_finish:
  "Report (fib_s (Fib_node_finish node x)) =
     Report (fib_s x)
     @ (if \<not> fib_fibHasLoopIF x
        then [(Node_Name node, Sprintf ''L2Fib entry for the loop0 interface not found'' [])] else [])
     @ map (\<lambda>n. (Node_Name node, Sprintf ''missing L2Fib entry for node %s'' [S n])) (fib_nodeFibMap x)
     @ map (\<lambda>k. (Node_Name node, Sprintf ''dangling L2Fib entry %s - no node for entry found'' [S k]))
         (fib_fibNodeMap x)"
  by (simp add: Fib_node_finish_def Let_def fold_fib_error fold_fib_error_log_Report)

text \<open>
  Claim C3. \<^verbatim>\<open>getVxlanBD\<close> succeeds exactly when the node has a bridge domain named
  \<^verbatim>\<open>vxlanBD\<close>, and returns the index of the first one; without one the node is reported
  and skipped. An entry qualifies when its bridge domain id is that index and it is
  static. The validation of a node is the scan of its forwarding table followed by the
  final reports. The scan is the loop body applied to the qualifying entries in their
  order, starting with the keys of exactly the qualifying entries as unaccounted entries;
  the body leaves all variables (report, error counter, both unaccounted sets) as they
  are at an entry that does not qualify. At a qualifying entry it acts: a BVI entry and
  a remote entry whose peer resolves are removed from the unaccounted entries together
  with the node they stand for, a remote entry that does not resolve is reported. The
  entries left unaccounted are keys of qualifying entries, and the final reports name
  exactly the nodes and entries left in the two sets.
\<close>

theorem fib_qualifying_entries_exactly:
  assumes "getVxlanBD node = Inr vxLanBD"
  shows "vxLanBD < length (NodeBridgeDomains node)
     \<and> Bd_Name (NodeBridgeDomains node ! vxLanBD) = ''vxlanBD''
     \<and> (\<forall>j < vxLanBD. Bd_Name (NodeBridgeDomains node ! j) \<noteq> ''vxlanBD'')
     \<and> ((\<exists>i. getVxlanBD node' = Inr i) \<longleftrightarrow> (\<exists>b \<in> set (NodeBridgeDomains node'). Bd_Name b = ''vxlanBD''))
     \<and> (getVxlanBD node' = Inl err \<longrightarrow>
          Fib_node v nodeList node' (s, errCnt) =
            (AppendToNodeReport (Node_Name node')
               (Sprintf ''%s - skipping L2Fib validation for node %s'' [S err, S (Node_Name node')]) s,
             errCnt + 1))
     \<and> Fib_node v nodeList node (s, errCnt) =
         (fib_s (Fib_node_finish node (Fib_scan v nodeList node vxLanBD (NodeL2Fibs node) s errCnt)),
          fib_errCnt (Fib_node_finish node (Fib_scan v nodeList node vxLanBD (NodeL2Fibs node) s errCnt)))
     \<and> Fib_scan v nodeList node vxLanBD fibs s errCnt =
         fold (Fib_entry v node vxLanBD) (filter (\<lambda>(k, e). fib_qualifies vxLanBD e) fibs)
           \<lparr>fib_s = s, fib_errCnt = errCnt, fib_fibHasLoopIF = False,
            fib_nodeFibMap = fold (\<lambda>n m. set_key (Node_Name n) m) nodeList [],
            fib_fibNodeMap = fold set_key (map fst (filter (\<lambda>(k, e). fib_qualifies vxLanBD e) fibs)) []\<rparr>
     \<and> set (fold set_key (map fst (filter (\<lambda>(k, e). fib_qualifies vxLanBD e) fibs)) []) =
         {k. \<exists>e. (k, e) \<in> set fibs \<and> fib_qualifies vxLanBD e}
     \<and> set (fib_fibNodeMap (Fib_scan v nodeList node vxLanBD fibs s errCnt))
          \<subseteq> {k. \<exists>e. (k, e) \<in> set fibs \<and> fib_qualifies vxLanBD e}
     \<and> (\<not> fib_qualifies vxLanBD feVal \<longrightarrow> Fib_entry v node vxLanBD (feKey, feVal) x = x)
     \<and> (fib_qualifies vxLanBD feVal \<and> Fe_BridgedVirtualInterface feVal \<longrightarrow>
          fib_fibNodeMap (Fib_entry v node vxLanBD (feKey, feVal) x) = delete_key feKey (fib_fibNodeMap x)
          \<and> fib_nodeFibMap (Fib_entry v node vxLanBD (feKey, feVal) x)
               = delete_key (Node_Name node) (fib_nodeFibMap x)
          \<and> fib_fibHasLoopIF (Fib_entry v node vxLanBD (feKey, feVal) x)
               = (fib_fibHasLoopIF x \<or> RetrieveNodeByLoopMacAddr v (Fe_PhysAddress feVal) \<noteq> None))
     \<and> (fib_qualifies vxLanBD feVal \<and> \<not> Fe_BridgedVirtualInterface feVal
          \<and> map_of (NodeInterfaces node) (int (FeMeta_OutgoingIfIndex feVal)) = Some intf
          \<and> RetrieveNodeByGigEIPAddr v (If_Vxlan_DstAddress intf) = Some macNode \<longrightarrow>
          fib_fibNodeMap (Fib_entry v node vxLanBD (feKey, feVal) x) = delete_key feKey (fib_fibNodeMap x)
          \<and> fib_nodeFibMap (Fib_entry v node vxLanBD (feKey, feVal) x)
               = delete_key (Node_Name macNode) (fib_nodeFibMap x))
     \<and> (fib_qualifies vxLanBD feVal \<and> \<not> Fe_BridgedVirtualInterface feVal
          \<and> map_of (NodeInterfaces node) (int (FeMeta_OutgoingIfIndex feVal)) = None \<longrightarrow>
          Fib_entry v node vxLanBD (feKey, feVal) x =
            fib_error (Node_Name node)
              (Sprintf (''outgoing interface for L2Fib entry %s not found ifName %s, '' @ ''ifIndex %d'')
                 [S (Fe_PhysAddress feVal), S (Fe_OutgoingIfName feVal),
                  N (FeMeta_OutgoingIfIndex feVal)]) x)
     \<and> (fib_qualifies vxLanBD feVal \<and> \<not> Fe_BridgedVirtualInterface feVal
          \<and> map_of (NodeInterfaces node) (int (FeMeta_OutgoingIfIndex feVal)) = Some intf
          \<and> RetrieveNodeByGigEIPAddr v (If_Vxlan_DstAddress intf) = None \<longrightarrow>
          Fib_entry v node vxLanBD (feKey, feVal) x =
            fib_error (Node_Name node)
              (Sprintf (''invalid L2Fib entry %s: '' @ ''remote node for VXLAN DstIP %s not found'')
                 [S feKey, S (If_Vxlan_DstAddress intf)]) x)
     \<and> Report (fib_s (Fib_node_finish node x)) =
         Report (fib_s x)
         @ (if \<not> fib_fibHasLoopIF x
            then [(Node_Name node, Sprintf ''L2Fib entry for the loop0 interface not found'' [])] else [])
         @ map (\<lambda>n. (Node_Name node, Sprintf ''missing L2Fib entry for node %s'' [S n])) (fib_nodeFibMap x)
         @ map (\<lambda>k. (Node_Name node, Sprintf ''dangling L2Fib entry %s - no node for entry found'' [S k]))
             (fib_fibNodeMap x)
     \<and> fib_errCnt (Fib_node_finish node x) =
         fib_errCnt x + (if \<not> fib_fibHasLoopIF x then 1 else 0)
           + length (fib_nodeFibMap x) + length (fib_fibNodeMap x)"
proof -
  let ?q = "\<lambda>(k, e). fib_qualifies vxLanBD e"
  from assms have "getVxlanBD_loop 0 (NodeBridgeDomains node) = Some vxLanBD"
    by (simp add: getVxlanBD_def split: option.splits)
  from getVxlanBD_loop_Some [OF this]
  have first: "vxLanBD < length (NodeBridgeDomains node)"
    "Bd_Name (NodeBridgeDomains node ! vxLanBD) = ''vxlanBD''"
    "\<forall>j < vxLanBD. Bd_Name (NodeBridgeDomains node ! j) \<noteq> ''vxlanBD''" by simp_all
  have keys: "set (fold set_key (map fst (filter ?q fibs)) []) =
      {k. \<exists>e. (k, e) \<in> set fibs \<and> fib_qualifies vxLanBD e}"
    using set_fold_Fib_mark [of vxLanBD fibs "[]"] by (simp add: fold_Fib_mark_keys)
  have sub: "set (fib_fibNodeMap (Fib_scan v nodeList node vxLanBD fibs s errCnt))
          \<subseteq> {k. \<exists>e. (k, e) \<in> set fibs \<and> fib_qualifies vxLanBD e}"
    unfolding Fib_scan_qualifying keys [symmetric]
    by (rule order_trans [OF fold_Fib_entry_shrinks(1)]) simp
  have node: "Fib_node v nodeList node (s, errCnt) =
         (fib_s (Fib_node_finish node (Fib_scan v nodeList node vxLanBD (NodeL2Fibs node) s errCnt)),
          fib_errCnt (Fib_node_finish node (Fib_scan v nodeList node vxLanBD (NodeL2Fibs node) s errCnt)))"
    using assms by (simp add: Fib_node_def Let_def)
  show ?thesis
    using first getVxlanBD_found_iff [of node'] node Fib_scan_qualifying [of v nodeList node vxLanBD fibs s errCnt]
      keys sub Fib_entry_skip [of vxLanBD feVal v node feKey x]
      Fib_entry_bvi [of vxLanBD feVal v node feKey x]
      Fib_entry_remote_resolved [of vxLanBD feVal node intf v macNode feKey x]
      Fib_entry_no_outgoing [of vxLanBD feVal node v feKey x]
      Fib_entry_no_remote [of vxLanBD feVal node intf v feKey x]
      Report_Fib_node_finish [of node x] errCnt_Fib_node_finish [of node x]
      Fib_node_skip [of node' err v nodeList s errCnt]
    by blast
qed


theorem fib_qualifying_entries_exactly_witness:
  "getVxlanBD ex_fib_node = Inr 1
   \<and> Fib_entry ex_fib_validator ex_fib_node 1 (NodeL2Fibs ex_fib_node ! 0)
        \<lparr>fib_s = ex_state ''10.1.1.5'', fib_errCnt = 0, fib_fibHasLoopIF = False,
         fib_nodeFibMap = [''node1''], fib_fibNodeMap = [''fib-bvi'', ''fib-remote'']\<rparr> =
       \<lparr>fib_s = ex_state ''10.1.1.5'', fib_errCnt = 0, fib_fibHasLoopIF = False,
        fib_nodeFibMap = [''node1''], fib_fibNodeMap = [''fib-bvi'', ''fib-remote'']\<rparr>
   \<and> Fib_entry ex_fib_validator ex_fib_node 1 (NodeL2Fibs ex_fib_node ! 1)
        \<lparr>fib_s = ex_state ''10.1.1.5'', fib_errCnt = 0, fib_fibHasLoopIF = False,
         fib_nodeFibMap = [''node1''], fib_fibNodeMap = [''fib-bvi'', ''fib-remote'']\<rparr> =
       \<lparr>fib_s = ex_state ''10.1.1.5'', fib_errCnt = 0, fib_fibHasLoopIF = True,
        fib_nodeFibMap = [], fib_fibNodeMap = [''fib-remote'']\<rparr>
   \<and> Fib_scan ex_fib_validator [ex_fib_node] ex_fib_node 1 (NodeL2Fibs ex_fib_node) (ex_state ''10.1.1.5'') 0 =
       \<lparr>fib_s = (ex_state ''10.1.1.5'')
          \<lparr>Report := [(''node1'',
             Sprintf (''outgoing interface for L2Fib entry %s not found ifName %s, '' @ ''ifIndex %d'')
               [S ''1a:2b:3c:4d:5e:07'', S ''vxlan7'', N 7])]\<rparr>,
        fib_errCnt = 1, fib_fibHasLoopIF = True,
        fib_nodeFibMap = [], fib_fibNodeMap = [''fib-remote'']\<rparr>
   \<and> Fib_node ex_fib_validator [ex_fib_node] ex_fib_node (ex_state ''10.1.1.5'', 0) =
       ((ex_state ''10.1.1.5'')
          \<lparr>Report := [(''node1'',
             Sprintf (''outgoing interface for L2Fib entry %s not found ifName %s, '' @ ''ifIndex %d'')
               [S ''1a:2b:3c:4d:5e:07'', S ''vxlan7'', N 7]),
            (''node1'', Sprintf ''dangling L2Fib entry %s - no node for entry found'' [S ''fib-remote''])]\<rparr>,
        2)"
  using fib_qualifying_entries_exactly [where node = ex_fib_node and vxLanBD = 1
      and fibs = "NodeL2Fibs ex_fib_node" and v = ex_fib_validator
      and feKey = "''fib-dynamic''" and feVal = "snd (NodeL2Fibs ex_fib_node ! 0)"
      and x = "\<lparr>fib_s = ex_state ''10.1.1.5'', fib_errCnt = 0, fib_fibHasLoopIF = False,
        fib_nodeFibMap = [''node1''], fib_fibNodeMap = [''fib-bvi'', ''fib-remote'']\<rparr>"
      and nodeList = "[ex_fib_node]" and s = "ex_state ''10.1.1.5''" and errCnt = 0
      and node' = ex_fib_node and err = "''vxlanBD not found''"]
    fib_qualifying_entries_exactly [where node = ex_fib_node and vxLanBD = 1
      and fibs = "NodeL2Fibs ex_fib_node" and v = ex_fib_validator
      and feKey = "''fib-bvi''" and feVal = "snd (NodeL2Fibs ex_fib_node ! 1)"
      and x = "\<lparr>fib_s = ex_state ''10.1.1.5'', fib_errCnt = 0, fib_fibHasLoopIF = False,
        fib_nodeFibMap = [''node1''], fib_fibNodeMap = [''fib-bvi'', ''fib-remote'']\<rparr>"
      and nodeList = "[ex_fib_node]" and s = "ex_state ''10.1.1.5''" and errCnt = 0
      and node' = ex_fib_node and err = "''vxlanBD not found''"]
  by (simp add: ex_fib_node_def ex_fib_validator_def ex_bvi_def ex_defs getVxlanBD_def Fib_mark_def
        fib_qualifies_def Fib_node_def Fib_scan_def Fib_entry_def Fib_node_finish_def
        fib_error_def fib_error_log_def AppendToNodeReport_def LogErrAndAppendToNodeReport_def
        set_key_def delete_key_def)

section \<open>The VXLAN mesh validator\<close>

lemmas ex_l2_defs = ex_vxlanBD_def ex_otherBD_def ex_l2_node_def ex_l2_validator_def ex_bvi_def
  ex_tunnel_def ex_mesh_BD_def ex_mesh_node1_def ex_mesh_node2_def ex_mesh_validator_def

lemmas l2_defs = ValidateL2Connectivity_def L2_nodes_def L2_node_def L2_scan_def L2_bdIfc_def
  L2_node_finish_def L2_finish_def L2_nodeVxlanMap_def bdName2Id_of_def l2_error_def
  AppendToNodeReport_def set_key_def delete_key_def

text \<open>
  The result of the search: no bridge domain named \<^verbatim>\<open>vxlanBD\<close> is reported as missing,
  two or more as a duplicate, and with exactly one the pointer reads the last bridge
  domain of the list, whatever its name.
\<close>

lemma bd_search_general:
  "bd_search bds isSet cell =
     (let n = length (filter (\<lambda>b. Bd_Name b = ''vxlanBD'') bds) + (if isSet then 1 else 0)
      in if n \<ge> 2 then Duplicate
         else if n = 0 then NotFound
         else (case (if bds = [] then cell else Some (last bds)) of
                 None \<Rightarrow> NotFound
               | Some bdomain \<Rightarrow> Found bdomain))"
  by (induction bds arbitrary: isSet cell) (auto simp: Let_def split: option.splits)

lemma bd_search_result:
  "bd_search bds False None =
     (case length (filter (\<lambda>b. Bd_Name b = ''vxlanBD'') bds) of
        0 \<Rightarrow> NotFound
      | Suc 0 \<Rightarrow> Found (last bds)
      | Suc (Suc n) \<Rightarrow> Duplicate)"
  by (cases bds) (auto simp: bd_search_general Let_def split: nat.splits)

text \<open>
  Claim C2 fails on the code. For a node with the bridge domains \<open>vxlanBD\<close> and
  \<open>otherBD\<close>, in this order, the search finds the one bridge domain named
  \<^verbatim>\<open>vxlanBD\<close>, but the pointer reads the last bridge domain of the loop: the members of
  \<open>otherBD\<close> are scanned and the node fails. With the same bridge domains in the other
  order the node passes.
\<close>

theorem overlay_bd_read_from_last_bridge_domain:
  "bd_search [ex_vxlanBD, ex_otherBD] False None = Found ex_otherBD
   \<and> ValidateL2Connectivity (ex_l2_validator [ex_vxlanBD, ex_otherBD]) (ex_state ''10.1.1.5'') =
       Inr ((ex_state ''10.1.1.5'')
          \<lparr>Report :=
             [(''node1'', Sprintf (''the number of valid BD interfaces does not match the number of nodes '' @
                                   ''in cluster: got %d, expected %d'') [N 0, N 1]),
              (''node1'', Sprintf ''BVI in the Contiv cluster Vxlan BD is invalid or missing'' []),
              (''node1'', Sprintf ''failed to validate the Contiv cluster Vxlan BD'' []),
              (GlobalMsg, Sprintf ''L2 connectivity validation: %d errors found'' [N 2])]\<rparr>)
   \<and> ValidateL2Connectivity (ex_l2_validator [ex_otherBD, ex_vxlanBD]) (ex_state ''10.1.1.5'') =
       Inr ((ex_state ''10.1.1.5'')
          \<lparr>Report := [(GlobalMsg, Sprintf ''L2 connectivity validation: OK'' [])]\<rparr>)"
  by (simp add: ex_l2_defs ex_defs l2_defs eval_nat_numeral)

text \<open>
  Claim C6 as stated fails. The set of unaccounted peers of \<open>node1\<close> starts with its
  own name in it, and \<open>node1\<close>, with three valid members in a cluster of two nodes, is
  reported for the wrong number and removed from the unvalidated nodes all the same.
\<close>

theorem wrong_tunnel_count_still_validated:
  "L2_nodeVxlanMap [ex_mesh_node1 ex_mesh_BD, ex_mesh_node2] = [''node1'', ''node2'']
   \<and> L2_scan (ex_mesh_validator ex_mesh_BD) [ex_mesh_node1 ex_mesh_BD, ex_mesh_node2]
        (ex_mesh_node1 ex_mesh_BD) ex_mesh_BD (ex_state ''10.1.1.5'') 0 =
       Inr \<lparr>l2_s = ex_state ''10.1.1.5'', l2_errCnt = 0, l2_i = 3, l2_hasBviIfc = True, l2_nodeVxlanMap = []\<rparr>
   \<and> length [ex_mesh_node1 ex_mesh_BD, ex_mesh_node2] = 2
   \<and> L2_node (ex_mesh_validator ex_mesh_BD) [ex_mesh_node1 ex_mesh_BD, ex_mesh_node2]
        (ex_mesh_node1 ex_mesh_BD)
        (ex_state ''10.1.1.5'', 0, [''node1'', ''node2'']) =
       Inr (AppendToNodeReport ''node1''
              (Sprintf (''the number of valid BD interfaces does not match the number of nodes '' @
                        ''in cluster: got %d, expected %d'') [N 3, N 2])
              (ex_state ''10.1.1.5''), 1, [''node2''])"
  by (simp add: ex_l2_defs ex_defs l2_defs eval_nat_numeral)


lemma L2_node_finish_nodeMap:
  "snd (snd (L2_node_finish nodeList node x nodeMap)) =
     (if l2_hasBviIfc x \<and> l2_nodeVxlanMap x = [] then delete_key (Node_Name node) nodeMap else nodeMap)"
  by (simp add: L2_node_finish_def l2_error_def Let_def)

lemma L2_node_nodeMap:
  assumes "L2_node v nodeList node (s, errCnt, nodeMap) = Inr (s', errCnt', nodeMap')"
  shows "nodeMap' = nodeMap \<or>
     (nodeMap' = delete_key (Node_Name node) nodeMap \<and>
      (\<exists>vxLanBD x. bd_search (NodeBridgeDomains node) False None = Found vxLanBD
          \<and> L2_scan v nodeList node vxLanBD s errCnt = Inr x
          \<and> l2_hasBviIfc x \<and> l2_nodeVxlanMap x = []))"
proof (cases "bd_search (NodeBridgeDomains node) False None")
  case Duplicate
  with assms show ?thesis by (simp add: L2_node_def)
next
  case NotFound
  with assms show ?thesis by (simp add: L2_node_def)
next
  case (Found bd)
  show ?thesis
  proof (cases "L2_scan v nodeList node bd s errCnt")
    case (Inl e)
    with assms Found show ?thesis by (simp add: L2_node_def)
  next
    case (Inr x)
    with assms Found have "L2_node_finish nodeList node x nodeMap = (s', errCnt', nodeMap')"
      by (simp add: L2_node_def)
    then have "nodeMap' = snd (snd (L2_node_finish nodeList node x nodeMap))" by simp
    then show ?thesis
      using Found Inr by (simp add: L2_node_finish_nodeMap)
  qed
qed

lemma foldE_invariant:
  assumes "foldE f xs s = Inr s'" and "P s"
    and "\<And>x a b. x \<in> set xs \<Longrightarrow> P a \<Longrightarrow> f x a = Inr b \<Longrightarrow> P b"
  shows "P s'"
  using assms
proof (induction xs arbitrary: s)
  case Nil
  then show ?case by simp
next
  case (Cons x xs)
  from Cons.prems(1) obtain b where b: "f x s = Inr b" "foldE f xs b = Inr s'"
    by (auto split: sum.splits)
  have "P b" using Cons.prems(3) [of x s b] Cons.prems(2) b(1) by simp
  then show ?case
    using Cons.IH [OF b(2)] Cons.prems(3) by (metis list.set_intros(2))
qed

lemma distinct_fold_set_key_all:
  "distinct m0 \<Longrightarrow> distinct (fold (\<lambda>x m. set_key (f x) m) xs m0)"
  by (induction xs arbitrary: m0) (simp_all add: distinct_set_key)

lemma L2_nodes_distinct:
  assumes "L2_nodes v s = Inr (s1, errCnt1, nodeMap1)"
  shows "distinct nodeMap1"
proof -
  let ?P = "\<lambda>st :: State \<times> nat \<times> keyset. distinct (snd (snd st))"
  have "?P (s1, errCnt1, nodeMap1)"
  proof (rule foldE_invariant [where P = ?P])
    show "foldE (L2_node v (RetrieveAllNodes v)) (RetrieveAllNodes v)
            (s, 0, fold (\<lambda>node m. set_key (Node_Name node) m) (RetrieveAllNodes v) []) =
          Inr (s1, errCnt1, nodeMap1)"
      using assms by (simp add: L2_nodes_def Let_def)
    show "?P (s, 0, fold (\<lambda>node m. set_key (Node_Name node) m) (RetrieveAllNodes v) [])"
      by (simp add: distinct_fold_set_key_all)
  next
    fix x a b
    assume "?P a" and r: "L2_node v (RetrieveAllNodes v) x a = Inr b"
    obtain s0 c0 m0 where a: "a = (s0, c0, m0)" by (cases a)
    obtain s' c' m' where b: "b = (s', c', m')" by (cases b)
    from L2_node_nodeMap [OF r [unfolded a b]] \<open>?P a\<close>
    show "?P b" by (auto simp: a b distinct_delete_key)
  qed
  then show ?thesis by simp
qed

lemma Report_fold_Append:
  "Report (fold (\<lambda>n. AppendToNodeReport n m) ns s) = Report s @ map (\<lambda>n. (n, m)) ns"
  by (induction ns arbitrary: s) (simp_all add: AppendToNodeReport_def)

lemma Report_L2_finish:
  "Report (L2_finish (s, errCnt, nodeMap)) =
     Report s @ map (\<lambda>n. (n, Sprintf ''failed to validate the Contiv cluster Vxlan BD'' [])) nodeMap
     @ [(GlobalMsg, if errCnt = 0 then Sprintf ''L2 connectivity validation: OK'' []
                    else Sprintf ''L2 connectivity validation: %d errors found'' [N errCnt])]"
  by (simp add: L2_finish_def Let_def Report_fold_Append AppendToNodeReport_def)

lemma l2_error_simps [simp]:
  "l2_i (l2_error n m x) = l2_i x"
  "l2_hasBviIfc (l2_error n m x) = l2_hasBviIfc x"
  "l2_nodeVxlanMap (l2_error n m x) = l2_nodeVxlanMap x"
  "l2_errCnt (l2_error n m x) = l2_errCnt x + 1"
  "Report (l2_s (l2_error n m x)) = Report (l2_s x) @ [(n, m)]"
  by (simp_all add: l2_error_def AppendToNodeReport_def)

lemma L2_bdIfc_step:
  assumes "L2_bdIfc v node (bdName2Id_of (BdMeta_BdID2Name bd)) bdIfc y = Inr y'"
  shows "(l2_nodeVxlanMap y' = l2_nodeVxlanMap y
          \<or> (\<exists>n. member_resolves v node bd bdIfc n
                 \<and> l2_nodeVxlanMap y' = delete_key n (l2_nodeVxlanMap y)))
       \<and> (l2_hasBviIfc y' \<longrightarrow> l2_hasBviIfc y \<or> BdIfc_BVI bdIfc)
       \<and> l2_i y' \<le> l2_i y + 1"
  using assms
  by (auto simp: L2_bdIfc_def member_resolves_def Let_def split: option.splits if_splits)


lemma L2_scan_invariant:
  assumes "L2_scan v nodeList node bd s errCnt = Inr x"
  shows "set (l2_nodeVxlanMap x) \<subseteq> Node_Name ` set nodeList
     \<and> (\<forall>n \<in> Node_Name ` set nodeList - set (l2_nodeVxlanMap x).
           \<exists>bdIfc \<in> set (Bd_Interfaces bd). member_resolves v node bd bdIfc n)
     \<and> (l2_hasBviIfc x \<longrightarrow> (\<exists>bdIfc \<in> set (Bd_Interfaces bd). BdIfc_BVI bdIfc))"
proof -
  let ?P = "\<lambda>y. set (l2_nodeVxlanMap y) \<subseteq> Node_Name ` set nodeList
     \<and> (\<forall>n \<in> Node_Name ` set nodeList - set (l2_nodeVxlanMap y).
           \<exists>bdIfc \<in> set (Bd_Interfaces bd). member_resolves v node bd bdIfc n)
     \<and> (l2_hasBviIfc y \<longrightarrow> (\<exists>bdIfc \<in> set (Bd_Interfaces bd). BdIfc_BVI bdIfc))"
  show ?thesis
  proof (rule foldE_invariant [where P = ?P])
    show "foldE (L2_bdIfc v node (bdName2Id_of (BdMeta_BdID2Name bd))) (Bd_Interfaces bd)
            \<lparr>l2_s = s, l2_errCnt = errCnt, l2_i = 0, l2_hasBviIfc = False,
             l2_nodeVxlanMap = L2_nodeVxlanMap nodeList\<rparr> = Inr x"
      using assms by (simp add: L2_scan_def)
    show "?P \<lparr>l2_s = s, l2_errCnt = errCnt, l2_i = 0, l2_hasBviIfc = False,
             l2_nodeVxlanMap = L2_nodeVxlanMap nodeList\<rparr>"
      by (simp add: L2_nodeVxlanMap_def set_fold_set_key)
  next
    fix bdIfc y y'
    assume m: "bdIfc \<in> set (Bd_Interfaces bd)" and P: "?P y"
      and st: "L2_bdIfc v node (bdName2Id_of (BdMeta_BdID2Name bd)) bdIfc y = Inr y'"
    from L2_bdIfc_step [OF st]
    have map: "l2_nodeVxlanMap y' = l2_nodeVxlanMap y
          \<or> (\<exists>n. member_resolves v node bd bdIfc n
                 \<and> l2_nodeVxlanMap y' = delete_key n (l2_nodeVxlanMap y))"
      and bvi: "l2_hasBviIfc y' \<longrightarrow> l2_hasBviIfc y \<or> BdIfc_BVI bdIfc" by simp_all
    from map P m have "set (l2_nodeVxlanMap y') \<subseteq> Node_Name ` set nodeList" by auto
    moreover from map P m
    have "\<forall>n \<in> Node_Name ` set nodeList - set (l2_nodeVxlanMap y').
           \<exists>bdIfc \<in> set (Bd_Interfaces bd). member_resolves v node bd bdIfc n"
      by (elim disjE exE conjE) (simp, auto)
    moreover from bvi P m
    have "l2_hasBviIfc y' \<longrightarrow> (\<exists>bdIfc \<in> set (Bd_Interfaces bd). BdIfc_BVI bdIfc)" by auto
    ultimately show "?P y'" by simp
  qed
qed

lemma L2_scan_no_members:
  "Bd_Interfaces bd = [] \<Longrightarrow>
     L2_scan v nodeList node bd s errCnt =
       Inr \<lparr>l2_s = s, l2_errCnt = errCnt, l2_i = 0, l2_hasBviIfc = False,
            l2_nodeVxlanMap = L2_nodeVxlanMap nodeList\<rparr>"
  by (simp add: L2_scan_def)

lemma L2_scan_members:
  "L2_scan v nodeList node bd s errCnt =
     foldE (L2_bdIfc v node (bdName2Id_of (BdMeta_BdID2Name bd))) (Bd_Interfaces bd)
       \<lparr>l2_s = s, l2_errCnt = errCnt, l2_i = 0, l2_hasBviIfc = False,
        l2_nodeVxlanMap = L2_nodeVxlanMap nodeList\<rparr>"
  by (simp add: L2_scan_def)

lemma L2_bdIfc_bvi_resolved:
  assumes "map_of (NodeInterfaces node) (int (case bdName2Id (BdIfc_Name bdIfc) of None \<Rightarrow> 0 | Some i \<Rightarrow> i))
             = Some nodeIfc"
    and "BdIfc_BVI bdIfc" and "If_IfType nodeIfc = SOFTWARE_LOOPBACK"
    and "RetrieveNodeByLoopMacAddr v (If_PhysAddress nodeIfc) = Some peer"
  shows "\<exists>y'. L2_bdIfc v node bdName2Id bdIfc y = Inr y'
     \<and> l2_hasBviIfc y' \<and> l2_i y' = l2_i y + 1
     \<and> l2_nodeVxlanMap y' = delete_key (Node_Name peer) (l2_nodeVxlanMap y)"
  using assms by (simp add: L2_bdIfc_def Let_def)

lemma L2_bdIfc_tunnel_resolved:
  assumes "map_of (NodeInterfaces node) (int (case bdName2Id (BdIfc_Name bdIfc) of None \<Rightarrow> 0 | Some i \<Rightarrow> i))
             = Some nodeIfc"
    and "\<not> BdIfc_BVI bdIfc" and "If_IfType nodeIfc = VXLAN_TUNNEL"
    and "RetrieveNodeByGigEIPAddr v (If_Vxlan_SrcAddress nodeIfc) = Some srcIPNode"
    and "Node_Name srcIPNode = Node_Name node"
    and "RetrieveNodeByGigEIPAddr v (If_Vxlan_DstAddress nodeIfc) = Some peer"
  shows "\<exists>y'. L2_bdIfc v node bdName2Id bdIfc y = Inr y'
     \<and> l2_hasBviIfc y' = l2_hasBviIfc y \<and> l2_i y' = l2_i y + 1
     \<and> l2_nodeVxlanMap y' = delete_key (Node_Name peer) (l2_nodeVxlanMap y)"
  using assms by (simp add: L2_bdIfc_def Let_def)

lemma fold_l2_error:
  "fold (\<lambda>k. l2_error n (f k)) ks x =
     x\<lparr>l2_errCnt := l2_errCnt x + length ks,
       l2_s := (l2_s x)\<lparr>Report := Report (l2_s x) @ map (\<lambda>k. (n, f k)) ks\<rparr>\<rparr>"
  by (induction ks arbitrary: x) (simp_all add: l2_error_def AppendToNodeReport_def)

lemma Report_L2_node_finish:
  "Report (fst (L2_node_finish nodeList node x nodeMap)) =
     Report (l2_s x)
     @ (if l2_i x \<noteq> length nodeList
        then [(Node_Name node,
               Sprintf (''the number of valid BD interfaces does not match the number of nodes '' @
                        ''in cluster: got %d, expected %d'') [N (l2_i x), N (length nodeList)])]
        else [])
     @ (if \<not> l2_hasBviIfc x
        then [(Node_Name node, Sprintf ''BVI in the Contiv cluster Vxlan BD is invalid or missing'' [])]
        else map (\<lambda>n. (Node_Name node, Sprintf ''BD interface missing or invalid for node %s'' [S n]))
               (l2_nodeVxlanMap x))"
  by (simp add: L2_node_finish_def Let_def fold_l2_error)

lemma L2_node_not_found:
  "bd_search (NodeBridgeDomains node) False None = NotFound \<Longrightarrow>
     L2_node v nodeList node (s, errCnt, nodeMap) =
       Inr (AppendToNodeReport (Node_Name node)
              (Sprintf ''no vxlan BD - skipping L2 validation'' []) s, errCnt + 1, nodeMap)"
  "bd_search (NodeBridgeDomains node) False None = Duplicate \<Longrightarrow>
     L2_node v nodeList node (s, errCnt, nodeMap) =
       Inr (AppendToNodeReport (Node_Name node)
              (Sprintf ''multiple vxlanBD bridge domains - skipping L2 validation'' []) s,
            errCnt + 1, nodeMap)"
  by (simp_all add: L2_node_def)

text \<open>
  Claim C6, amended. The scan of the members of the overlay bridge domain of a node
  starts with the counter 0, the BVI flag unset and the names of all nodes, the node's
  own included, as unaccounted peers. A BVI member of loopback type whose MAC resolves,
  and a tunnel member whose source resolves to the node and whose destination resolves,
  count one and remove the node they resolve to from the unaccounted peers; a name is
  removed only when a member stands for it, and the flag is set only when the bridge
  domain has a BVI member. After the scan a counter different from the number of nodes
  is reported, a missing BVI is reported, and every unaccounted peer is reported. The
  node is removed from the unvalidated nodes exactly when its bridge domain was found
  (once), its BVI flag is set and no peer is left unaccounted, whatever the counter; a
  node without or with several overlay bridge domains is reported and stays. The names
  left at the end are pairwise different, and each adds one line to the report, under
  its own name, that the node failed.
\<close>

theorem l2_node_validated_iff_bvi_and_peers:
  assumes "bd_search (NodeBridgeDomains node) False None = Found vxLanBD"
    and "L2_scan v nodeList node vxLanBD s errCnt = Inr x"
    and "L2_nodes v s0 = Inr (s1, errCnt1, nodeMap1)"
  shows "L2_scan v nodeList node vxLanBD s errCnt =
         foldE (L2_bdIfc v node (bdName2Id_of (BdMeta_BdID2Name vxLanBD))) (Bd_Interfaces vxLanBD)
           \<lparr>l2_s = s, l2_errCnt = errCnt, l2_i = 0, l2_hasBviIfc = False,
            l2_nodeVxlanMap = L2_nodeVxlanMap nodeList\<rparr>
     \<and> set (L2_nodeVxlanMap nodeList) = Node_Name ` set nodeList
     \<and> set (l2_nodeVxlanMap x) \<subseteq> Node_Name ` set nodeList
     \<and> (\<forall>n \<in> Node_Name ` set nodeList - set (l2_nodeVxlanMap x).
           \<exists>bdIfc \<in> set (Bd_Interfaces vxLanBD). member_resolves v node vxLanBD bdIfc n)
     \<and> (l2_hasBviIfc x \<longrightarrow> (\<exists>bdIfc \<in> set (Bd_Interfaces vxLanBD). BdIfc_BVI bdIfc))
     \<and> (map_of (NodeInterfaces node) (int (case bdName2Id (BdIfc_Name bdIfc) of None \<Rightarrow> 0 | Some i \<Rightarrow> i))
           = Some nodeIfc
          \<and> BdIfc_BVI bdIfc \<and> If_IfType nodeIfc = SOFTWARE_LOOPBACK
          \<and> RetrieveNodeByLoopMacAddr v (If_PhysAddress nodeIfc) = Some peer \<longrightarrow>
          (\<exists>y'. L2_bdIfc v node bdName2Id bdIfc y = Inr y'
             \<and> l2_hasBviIfc y' \<and> l2_i y' = l2_i y + 1
             \<and> l2_nodeVxlanMap y' = delete_key (Node_Name peer) (l2_nodeVxlanMap y)))
     \<and> (map_of (NodeInterfaces node) (int (case bdName2Id (BdIfc_Name bdIfc) of None \<Rightarrow> 0 | Some i \<Rightarrow> i))
           = Some nodeIfc
          \<and> \<not> BdIfc_BVI bdIfc \<and> If_IfType nodeIfc = VXLAN_TUNNEL
          \<and> RetrieveNodeByGigEIPAddr v (If_Vxlan_SrcAddress nodeIfc) = Some srcIPNode
          \<and> Node_Name srcIPNode = Node_Name node
          \<and> RetrieveNodeByGigEIPAddr v (If_Vxlan_DstAddress nodeIfc) = Some peer \<longrightarrow>
          (\<exists>y'. L2_bdIfc v node bdName2Id bdIfc y = Inr y'
             \<and> l2_hasBviIfc y' = l2_hasBviIfc y \<and> l2_i y' = l2_i y + 1
             \<and> l2_nodeVxlanMap y' = delete_key (Node_Name peer) (l2_nodeVxlanMap y)))
     \<and> L2_node v nodeList node (s, errCnt, nodeMap) = Inr (L2_node_finish nodeList node x nodeMap)
     \<and> snd (snd (L2_node_finish nodeList node x nodeMap)) =
         (if l2_hasBviIfc x \<and> l2_nodeVxlanMap x = [] then delete_key (Node_Name node) nodeMap
          else nodeMap)
     \<and> Report (fst (L2_node_finish nodeList node x nodeMap)) =
         Report (l2_s x)
         @ (if l2_i x \<noteq> length nodeList
            then [(Node_Name node,
                   Sprintf (''the number of valid BD interfaces does not match the number of nodes '' @
                            ''in cluster: got %d, expected %d'') [N (l2_i x), N (length nodeList)])]
            else [])
         @ (if \<not> l2_hasBviIfc x
            then [(Node_Name node, Sprintf ''BVI in the Contiv cluster Vxlan BD is invalid or missing'' [])]
            else map (\<lambda>n. (Node_Name node, Sprintf ''BD interface missing or invalid for node %s'' [S n]))
                   (l2_nodeVxlanMap x))
     \<and> (bd_search (NodeBridgeDomains node') False None = NotFound \<longrightarrow>
          L2_node v nodeList node' (s, errCnt, nodeMap) =
            Inr (AppendToNodeReport (Node_Name node')
                   (Sprintf ''no vxlan BD - skipping L2 validation'' []) s, errCnt + 1, nodeMap))
     \<and> (bd_search (NodeBridgeDomains node') False None = Duplicate \<longrightarrow>
          L2_node v nodeList node' (s, errCnt, nodeMap) =
            Inr (AppendToNodeReport (Node_Name node')
                   (Sprintf ''multiple vxlanBD bridge domains - skipping L2 validation'' []) s,
                 errCnt + 1, nodeMap))
     \<and> distinct nodeMap1
     \<and> ValidateL2Connectivity v s0 = Inr (L2_finish (s1, errCnt1, nodeMap1))
     \<and> Report (L2_finish (s1, errCnt1, nodeMap1)) =
         Report s1 @ map (\<lambda>n. (n, Sprintf ''failed to validate the Contiv cluster Vxlan BD'' [])) nodeMap1
         @ [(GlobalMsg, if errCnt1 = 0 then Sprintf ''L2 connectivity validation: OK'' []
                        else Sprintf ''L2 connectivity validation: %d errors found'' [N errCnt1])]"
proof -
  have names: "set (L2_nodeVxlanMap nodeList) = Node_Name ` set nodeList"
    by (simp add: L2_nodeVxlanMap_def set_fold_set_key)
  have node: "L2_node v nodeList node (s, errCnt, nodeMap) = Inr (L2_node_finish nodeList node x nodeMap)"
    using assms(1,2) by (simp add: L2_node_def)
  have val: "ValidateL2Connectivity v s0 = Inr (L2_finish (s1, errCnt1, nodeMap1))"
    using assms(3) by (simp add: ValidateL2Connectivity_def)
  show ?thesis
    using L2_scan_members [of v nodeList node vxLanBD s errCnt] names
      L2_scan_invariant [OF assms(2)]
      L2_bdIfc_bvi_resolved [of node bdName2Id bdIfc nodeIfc v peer y]
      L2_bdIfc_tunnel_resolved [of node bdName2Id bdIfc nodeIfc v srcIPNode peer y]
      node L2_node_finish_nodeMap [of nodeList node x nodeMap]
      Report_L2_node_finish [of nodeList node x nodeMap]
      L2_node_not_found [of node' v nodeList s errCnt nodeMap]
      L2_nodes_distinct [OF assms(3)] val Report_L2_finish [of s1 errCnt1 nodeMap1]
    by blast
qed


theorem l2_node_validated_iff_bvi_and_peers_witness:
  "bd_search (NodeBridgeDomains (ex_mesh_node1 ex_vxlanBD)) False None = Found ex_vxlanBD
   \<and> bd_search (NodeBridgeDomains (ex_mesh_node1 ex_mesh_BD)) False None = Found ex_mesh_BD
   \<and> L2_scan (ex_mesh_validator ex_vxlanBD) [ex_mesh_node1 ex_vxlanBD, ex_mesh_node2]
        (ex_mesh_node1 ex_vxlanBD) ex_vxlanBD (ex_state ''10.1.1.5'') 0 = Inr (\<lparr>l2_s = ex_state ''10.1.1.5'', l2_errCnt = 0, l2_i = 1, l2_hasBviIfc = True, l2_nodeVxlanMap = [''node2'']\<rparr>)
   \<and> member_resolves (ex_mesh_validator ex_vxlanBD) (ex_mesh_node1 ex_vxlanBD) ex_vxlanBD
        \<lparr>BdIfc_Name = ''vxlanBVI'', BdIfc_BVI = True\<rparr> ''node1''
   \<and> L2_node (ex_mesh_validator ex_vxlanBD) [ex_mesh_node1 ex_vxlanBD, ex_mesh_node2]
        (ex_mesh_node1 ex_vxlanBD) (ex_state ''10.1.1.5'', 0, [''node1'', ''node2'']) =
       Inr ((ex_state ''10.1.1.5'')\<lparr>Report := [(''node1'', Sprintf (''the number of valid BD interfaces does not match the number of nodes '' @
                                   ''in cluster: got %d, expected %d'') [N 1, N 2]),
              (''node1'', Sprintf ''BD interface missing or invalid for node %s'' [S ''node2''])]\<rparr>, 2, [''node1'', ''node2''])
   \<and> L2_nodes (ex_mesh_validator ex_vxlanBD) (ex_state ''10.1.1.5'') =
       Inr ((ex_state ''10.1.1.5'')\<lparr>Report := [(''node1'', Sprintf (''the number of valid BD interfaces does not match the number of nodes '' @
                                   ''in cluster: got %d, expected %d'') [N 1, N 2]),
              (''node1'', Sprintf ''BD interface missing or invalid for node %s'' [S ''node2'']),
              (''node2'', Sprintf ''no vxlan BD - skipping L2 validation'' [])]\<rparr>, 3, [''node1'', ''node2''])
   \<and> ValidateL2Connectivity (ex_mesh_validator ex_vxlanBD) (ex_state ''10.1.1.5'') =
       Inr ((ex_state ''10.1.1.5'')\<lparr>Report := [(''node1'', Sprintf (''the number of valid BD interfaces does not match the number of nodes '' @
                                   ''in cluster: got %d, expected %d'') [N 1, N 2]),
              (''node1'', Sprintf ''BD interface missing or invalid for node %s'' [S ''node2'']),
              (''node2'', Sprintf ''no vxlan BD - skipping L2 validation'' [])] @
             [(''node1'', Sprintf ''failed to validate the Contiv cluster Vxlan BD'' []),
              (''node2'', Sprintf ''failed to validate the Contiv cluster Vxlan BD'' []),
              (GlobalMsg, Sprintf ''L2 connectivity validation: %d errors found'' [N 3])]\<rparr>)
   \<and> L2_scan (ex_mesh_validator ex_mesh_BD) [ex_mesh_node1 ex_mesh_BD, ex_mesh_node2]
        (ex_mesh_node1 ex_mesh_BD) ex_mesh_BD (ex_state ''10.1.1.5'') 0 = Inr (\<lparr>l2_s = ex_state ''10.1.1.5'', l2_errCnt = 0, l2_i = 3, l2_hasBviIfc = True, l2_nodeVxlanMap = []\<rparr>)
   \<and> L2_nodes (ex_mesh_validator ex_mesh_BD) (ex_state ''10.1.1.5'') =
       Inr ((ex_state ''10.1.1.5'')\<lparr>Report := [(''node1'', Sprintf (''the number of valid BD interfaces does not match the number of nodes '' @
                                   ''in cluster: got %d, expected %d'') [N 3, N 2]),
              (''node2'', Sprintf ''no vxlan BD - skipping L2 validation'' [])]\<rparr>, 2, [''node2''])
   \<and> ValidateL2Connectivity (ex_mesh_validator ex_mesh_BD) (ex_state ''10.1.1.5'') =
       Inr ((ex_state ''10.1.1.5'')\<lparr>Report := [(''node1'', Sprintf (''the number of valid BD interfaces does not match the number of nodes '' @
                                   ''in cluster: got %d, expected %d'') [N 3, N 2]),
              (''node2'', Sprintf ''no vxlan BD - skipping L2 validation'' [])] @
             [(''node2'', Sprintf ''failed to validate the Contiv cluster Vxlan BD'' []),
              (GlobalMsg, Sprintf ''L2 connectivity validation: %d errors found'' [N 2])]\<rparr>)"
  using l2_node_validated_iff_bvi_and_peers [where node = "ex_mesh_node1 ex_vxlanBD" and vxLanBD = ex_vxlanBD
      and v = "ex_mesh_validator ex_vxlanBD" and nodeList = "[ex_mesh_node1 ex_vxlanBD, ex_mesh_node2]"
      and s = "ex_state ''10.1.1.5''" and errCnt = 0
      and x = "\<lparr>l2_s = ex_state ''10.1.1.5'', l2_errCnt = 0, l2_i = 1, l2_hasBviIfc = True, l2_nodeVxlanMap = [''node2'']\<rparr>"
      and ?s0.0 = "ex_state ''10.1.1.5''"
      and ?s1.0 = "(ex_state ''10.1.1.5'')\<lparr>Report := [(''node1'', Sprintf (''the number of valid BD interfaces does not match the number of nodes '' @
                                   ''in cluster: got %d, expected %d'') [N 1, N 2]),
              (''node1'', Sprintf ''BD interface missing or invalid for node %s'' [S ''node2'']),
              (''node2'', Sprintf ''no vxlan BD - skipping L2 validation'' [])]\<rparr>"
      and ?errCnt1.0 = 3 and ?nodeMap1.0 = "[''node1'', ''node2'']"
      and bdName2Id = "bdName2Id_of (BdMeta_BdID2Name ex_vxlanBD)"
      and bdIfc = "\<lparr>BdIfc_Name = ''vxlanBVI'', BdIfc_BVI = True\<rparr>"
      and nodeIfc = "ex_bvi" and peer = "ex_mesh_node1 ex_vxlanBD"
      and srcIPNode = "ex_mesh_node1 ex_vxlanBD"
      and y = "\<lparr>l2_s = ex_state ''10.1.1.5'', l2_errCnt = 0, l2_i = 0, l2_hasBviIfc = False,
                l2_nodeVxlanMap = [''node1'', ''node2'']\<rparr>"
      and nodeMap = "[''node1'', ''node2'']" and node' = ex_mesh_node2]
    l2_node_validated_iff_bvi_and_peers [where node = "ex_mesh_node1 ex_mesh_BD" and vxLanBD = ex_mesh_BD
      and v = "ex_mesh_validator ex_mesh_BD" and nodeList = "[ex_mesh_node1 ex_mesh_BD, ex_mesh_node2]"
      and s = "ex_state ''10.1.1.5''" and errCnt = 0
      and x = "\<lparr>l2_s = ex_state ''10.1.1.5'', l2_errCnt = 0, l2_i = 3, l2_hasBviIfc = True, l2_nodeVxlanMap = []\<rparr>"
      and ?s0.0 = "ex_state ''10.1.1.5''"
      and ?s1.0 = "(ex_state ''10.1.1.5'')\<lparr>Report := [(''node1'', Sprintf (''the number of valid BD interfaces does not match the number of nodes '' @
                                   ''in cluster: got %d, expected %d'') [N 3, N 2]),
              (''node2'', Sprintf ''no vxlan BD - skipping L2 validation'' [])]\<rparr>"
      and ?errCnt1.0 = 2 and ?nodeMap1.0 = "[''node2'']"
      and bdName2Id = "bdName2Id_of (BdMeta_BdID2Name ex_mesh_BD)"
      and bdIfc = "\<lparr>BdIfc_Name = ''vxlan2'', BdIfc_BVI = False\<rparr>"
      and nodeIfc = "ex_tunnel ''vxlan2'' ''192.168.16.1'' ''192.168.16.2''" and peer = "ex_mesh_node2"
      and srcIPNode = "ex_mesh_node1 ex_mesh_BD"
      and y = "\<lparr>l2_s = ex_state ''10.1.1.5'', l2_errCnt = 0, l2_i = 0, l2_hasBviIfc = False,
                l2_nodeVxlanMap = [''node1'', ''node2'']\<rparr>"
      and nodeMap = "[''node1'', ''node2'']" and node' = ex_mesh_node2]
  by (simp add: ex_l2_defs ex_defs l2_defs member_resolves_def eval_nat_numeral)

end
